theory Spec2Isabelle
  imports Main "HOL-Library.Word"
begin

section \<open>Strings, header stores and values\<close>

text \<open>
  A JavaScript string is a sequence of UTF-16 code units. String literals of the source
  are written \<open>js ''...''\<close>.
\<close>

type_synonym jchar = "16 word"
type_synonym jstring = "jchar list"
type_synonym bytes = "8 word list"

definition js :: "string \<Rightarrow> jstring" where
  "js s = map of_char s"

text \<open>
  Lower-casing of the ASCII letters, which is what \<open>String.prototype.toLowerCase\<close> does
  to a string of ASCII code units, and what the header store does to a name.
\<close>

definition lower_char :: "jchar \<Rightarrow> jchar" where
  "lower_char c = (if 0x41 \<le> c \<and> c \<le> 0x5A then c + 0x20 else c)"

definition lower_ascii :: "jstring \<Rightarrow> jstring" where
  "lower_ascii s = map lower_char s"

definition is_ascii :: "jstring \<Rightarrow> bool" where
  "is_ascii s = list_all (\<lambda>c. c < 0x80) s"

definition startsWith :: "jstring \<Rightarrow> jstring \<Rightarrow> bool" where
  "startsWith s p = (take (length p) s = p)"

definition endsWith :: "jstring \<Rightarrow> jstring \<Rightarrow> bool" where
  "endsWith s p = (length p \<le> length s \<and> drop (length s - length p) s = p)"

text \<open>\<open>s.substr(-1)\<close>: the last code unit as a string, the empty string for \<open>""\<close>.\<close>

definition substr_last :: "jstring \<Rightarrow> jstring" where
  "substr_last s = (if s = [] then [] else [last s])"

text \<open>
  The content of the platform's \<open>Headers\<close> class: values under lower-case field names.
\<close>

type_synonym headers = "jstring \<rightharpoonup> jstring"

text \<open>
  A legal header name is a non-empty token: letters, digits and
  \<open>! # $ % & ' * + - . ^ _ ` | ~\<close>. The store refuses every other name.
\<close>

definition token_char :: "jchar \<Rightarrow> bool" where
  "token_char c =
     ((0x61 \<le> c \<and> c \<le> 0x7A) \<or> (0x41 \<le> c \<and> c \<le> 0x5A) \<or> (0x30 \<le> c \<and> c \<le> 0x39)
      \<or> c = 0x21 \<or> c = 0x23 \<or> c = 0x24 \<or> c = 0x25 \<or> c = 0x26 \<or> c = 0x27 \<or> c = 0x2A
      \<or> c = 0x2B \<or> c = 0x2D \<or> c = 0x2E \<or> c = 0x5E \<or> c = 0x5F \<or> c = 0x60 \<or> c = 0x7C
      \<or> c = 0x7E)"

definition legal_name :: "jstring \<Rightarrow> bool" where
  "legal_name n = (n \<noteq> [] \<and> list_all token_char n)"

text \<open>
  The operations of the store on a legal name and on a value the store takes as it is: a
  lookup, an update and a removal under the lower-cased name. These are the operations as
  the class itself uses them, with the field names the source writes and the values its
  collaborators give; the operations on arbitrary input, \<open>headers_get\<close>,
  \<open>headers_set\<close> and \<open>headers_delete\<close>, follow below.
\<close>

definition store_get :: "headers \<Rightarrow> jstring \<Rightarrow> jstring option" where
  "store_get h name = h (lower_ascii name)"

definition store_set :: "headers \<Rightarrow> jstring \<Rightarrow> jstring \<Rightarrow> headers" where
  "store_set h name v = h(lower_ascii name \<mapsto> v)"

definition store_delete :: "headers \<Rightarrow> jstring \<Rightarrow> headers" where
  "store_delete h name = h(lower_ascii name := None)"

text \<open>
  \<open>DenoResponseBody = string | Uint8Array | Deno.Reader\<close>. A reader is an opaque
  handle.
\<close>

datatype deno_body = BString jstring | BBytes bytes | BReader nat

text \<open>
  \<open>ResponseBody\<close>, the argument of \<open>send\<close>, \<open>json\<close> and \<open>jsonp\<close>: the three
  shapes above, \<open>null\<close>, booleans, numbers, and other objects (plain objects and arrays,
  none of which has a callable \<open>read\<close> property). Only the shape of a value matters to
  the source; what a number or an object holds is passed on to the serializer.
\<close>

datatype js_value =
    VString jstring
  | VBoolean bool
  | VNumber int
  | VNull
  | VBytes bytes
  | VReader nat
  | VObject "(jstring \<times> js_value) list"
  | VArray "js_value list"

text \<open>A parsed query-string value, as the query parser produces it.\<close>

datatype qvalue =
    QString jstring
  | QArray "qvalue list"
  | QObject "(jstring \<times> qvalue) list"

text \<open>\<open>Deno.FileInfo\<close>, with the fields the source reads. It has no \<open>length\<close>.\<close>

record file_info =
  isDirectory :: bool
  mtime :: "nat option"
  size :: nat

text \<open>The argument of \<open>etag\<close>: \<open>string | Uint8Array | Deno.FileInfo\<close>.\<close>

datatype etag_input = EString jstring | EBytes bytes | EFileInfo file_info

text \<open>
  Thrown values. \<open>TypeError\<close> is the engine's own; \<open>Failure n\<close> is an error raised by
  a collaborator (file system, URL conversion); \<open>NotAcceptable\<close> is the error object built
  in \<open>format\<close>, with its \<open>message\<close>, \<open>status\<close>, \<open>statusCode\<close> and \<open>types\<close>;
  \<open>CreatedError n\<close> is \<open>createError(n)\<close>.
\<close>

datatype error =
    TypeError
  | Failure nat
  | NotAcceptable jstring nat nat "jstring list"
  | CreatedError nat

section \<open>Request, application and response\<close>

text \<open>
  The parts of the request the source reads. \<open>fresh\<close> is a getter evaluated at the
  moment it is read, against the response's status and headers at that moment.
  \<open>accepts keys\<close> is \<open>req.accepts(keys)\<close>, the acceptable keys in order of
  preference (\<open>false\<close>, like the empty array, has no element \<open>0\<close>).
\<close>

record request =
  req_method :: jstring
  url :: jstring
  originalUrl :: jstring
  fresh :: "nat \<Rightarrow> headers \<Rightarrow> bool"
  query :: "jstring \<Rightarrow> qvalue option"
  accepts :: "jstring list \<Rightarrow> jstring list"

text \<open>
  The application settings the source reads through \<open>app.get\<close>: \<open>"etag fn"\<close> (absent
  when the setting is not a function; a falsy result of the function is the empty string)
  and \<open>"jsonp callback name"\<close>.
\<close>

record app =
  etag_fn :: "(etag_input \<Rightarrow> jstring) option"
  jsonp_callback_name :: jstring

text \<open>What \<open>req.respond\<close> is handed: the response's status, headers and body.\<close>

record transmission =
  tx_status :: nat
  tx_headers :: headers
  tx_body :: "deno_body option"

text \<open>
  Class \<open>Response\<close>: \<open>status\<close>, \<open>headers\<close>, \<open>body\<close> (unassigned until something
  assigns it), \<open>app\<close>, \<open>req\<close>. The last two fields are not fields of the class: they
  record, in order, the calls made to the transport (\<open>req.respond\<close>) and to the
  continuation (\<open>next\<close>), which is how the effects of the class on its surroundings are
  observed. A method \<open>Response.m\<close> is the function \<open>res_m\<close>; \<open>type\<close>, \<open>set\<close>
  and \<open>get\<close> are also given for arbitrary caller input, as \<open>Response_type\<close>,
  \<open>Response_set\<close> and \<open>Response_get\<close>.
\<close>

record response =
  status :: nat
  headers :: headers
  body :: "deno_body option"
  app :: app
  req :: request
  responded :: "transmission list"
  nexted :: "error option list"

text \<open>
  What \<open>normalizeType\<close> returns, with the field the source reads (\<open>.value\<close>), and a
  parsed URL with the fields the source reads and writes.
\<close>

record normalized =
  mime_value :: jstring

record parsed_url =
  pathname :: jstring
  path :: "jstring option"

text \<open>
  The imported functions, which the repository consumes and does not define in these
  files: \<open>contentType\<close> (undefined when the lookup fails), \<open>extname\<close>,
  \<open>basename\<close>, \<open>contentDisposition\<close>, \<open>stringify\<close> (with the application's
  replacer, spaces and escape settings applied), \<open>fromFileUrl\<close>, \<open>Deno.readFile\<close>,
  \<open>Deno.stat\<close>, \<open>Date.prototype.toUTCString\<close>, \<open>vary\<close> (the new header store),
  \<open>normalizeType\<close>, \<open>normalizeTypes\<close>, \<open>encodeUrl\<close>, \<open>escapeHtml\<close>,
  \<open>join\<close>, \<open>parseUrl\<close>, \<open>originalUrl\<close> (imported as \<open>original\<close>), and
  \<open>new URL(u).toString()\<close>. With them, three parts of the platform:
  \<open>String.prototype.toLowerCase\<close> on the strings that are not ASCII, the header store's
  normalization of a value (it strips the white space around it) and its test of a
  normalized value for legality.
\<close>

record deps =
  contentType :: "jstring \<Rightarrow> jstring option"
  extname :: "jstring \<Rightarrow> jstring"
  basename :: "jstring \<Rightarrow> jstring"
  contentDisposition :: "jstring \<Rightarrow> jstring \<Rightarrow> jstring"
  stringify :: "js_value \<Rightarrow> jstring"
  fromFileUrl :: "jstring \<Rightarrow> error + jstring"
  readFile :: "jstring \<Rightarrow> error + bytes"
  stat :: "jstring \<Rightarrow> error + file_info"
  toUTCString :: "nat \<Rightarrow> jstring"
  vary :: "headers \<Rightarrow> jstring \<Rightarrow> headers"
  normalizeType :: "jstring \<Rightarrow> normalized"
  normalizeTypes :: "jstring list \<Rightarrow> normalized list"
  encodeUrl :: "jstring \<Rightarrow> jstring"
  escapeHtml :: "jstring \<Rightarrow> jstring"
  join :: "jstring \<Rightarrow> jstring \<Rightarrow> jstring"
  parseUrl :: "request \<Rightarrow> parsed_url"
  original :: "request \<Rightarrow> parsed_url"
  url_toString :: "parsed_url \<Rightarrow> jstring"
  unicode_toLowerCase :: "jstring \<Rightarrow> jstring"
  normalize_value :: "jstring \<Rightarrow> jstring"
  legal_value :: "jstring \<Rightarrow> bool"

text \<open>
  A method that returns normally yields \<open>(None, r)\<close>, one that throws \<open>e\<close> yields
  \<open>(Some e, r)\<close>; in both cases \<open>r\<close> is the response object as the method left it.
\<close>

type_synonym outcome = "error option \<times> response"

subsection \<open>The header store\<close>

text \<open>\<open>String.prototype.toLowerCase\<close>.\<close>

definition toLowerCase :: "deps \<Rightarrow> jstring \<Rightarrow> jstring" where
  "toLowerCase D s = (if is_ascii s then lower_ascii s else unicode_toLowerCase D s)"

text \<open>
  \<open>Headers.get\<close>, \<open>Headers.set\<close> and \<open>Headers.delete\<close>. Each throws a
  \<open>TypeError\<close> for a name that is not legal, and \<open>set\<close> for a value that after
  normalization is not legal; \<open>set\<close> stores the normalized value. Legal names are
  ASCII, so lower-casing one is \<open>lower_ascii\<close>; the names the source hands the store
  have been lower-cased by \<open>toLowerCase\<close> already.
\<close>

definition headers_get :: "headers \<Rightarrow> jstring \<Rightarrow> error + jstring option" where
  "headers_get h name = (if legal_name name then Inr (h (lower_ascii name)) else Inl TypeError)"

definition headers_set :: "deps \<Rightarrow> headers \<Rightarrow> jstring \<Rightarrow> jstring \<Rightarrow> error + headers" where
  "headers_set D h name v =
     (let w = normalize_value D v
      in if legal_name name \<and> legal_value D w then Inr (h(lower_ascii name \<mapsto> w))
         else Inl TypeError)"

definition headers_delete :: "headers \<Rightarrow> jstring \<Rightarrow> error + headers" where
  "headers_delete h name =
     (if legal_name name then Inr (h(lower_ascii name := None)) else Inl TypeError)"

subsection \<open>Setting and reading headers\<close>

text \<open>
  \<open>Response.type\<close>, \<open>Response.set\<close> and \<open>Response.get\<close> for any field and
  value a caller may pass. \<open>Response.type\<close>:
  \<open>this.headers.set("content-type", contentType(type) || "")\<close>.
\<close>

definition Response_type :: "deps \<Rightarrow> jstring \<Rightarrow> response \<Rightarrow> outcome" where
  "Response_type D t r =
     (case headers_set D (headers r) (js ''content-type'')
             (case contentType D t of None \<Rightarrow> [] | Some ct \<Rightarrow> ct) of
        Inl e \<Rightarrow> (Some e, r)
      | Inr h \<Rightarrow> (None, r\<lparr>headers := h\<rparr>))"

text \<open>\<open>Response.set\<close>.\<close>

definition Response_set :: "deps \<Rightarrow> jstring \<Rightarrow> jstring \<Rightarrow> response \<Rightarrow> outcome" where
  "Response_set D field v r =
     (let lowerCaseField = toLowerCase D field
      in if lowerCaseField = js ''content-type'' then Response_type D v r
         else
           (case headers_set D (headers r) lowerCaseField v of
              Inl e \<Rightarrow> (Some e, r)
            | Inr h \<Rightarrow> (None, r\<lparr>headers := h\<rparr>)))"

text \<open>\<open>Response.get\<close>: \<open>this.headers.get(field.toLowerCase()) || ""\<close>.\<close>

definition Response_get :: "deps \<Rightarrow> response \<Rightarrow> jstring \<Rightarrow> error + jstring" where
  "Response_get D r field =
     (case headers_get (headers r) (toLowerCase D field) of
        Inl e \<Rightarrow> Inl e
      | Inr None \<Rightarrow> Inr []
      | Inr (Some v) \<Rightarrow> Inr v)"

subsection \<open>Headers of the response, as the class sets and reads them\<close>

text \<open>
  The other methods of the class call \<open>type\<close>, \<open>set\<close>, \<open>get\<close> and \<open>unset\<close>
  with the field names the source writes, which are legal and ASCII, and with values that
  come from the collaborators (the media type lookup, the ETag function, the disposition,
  the date, the location), which are taken to be legal values without surrounding white
  space. On such arguments the store does not throw and keeps the value as it is, and the
  methods are the following functions.

  \<open>Response.type\<close>: \<open>this.headers.set("content-type", contentType(type) || "")\<close>.
\<close>

definition res_type :: "deps \<Rightarrow> jstring \<Rightarrow> response \<Rightarrow> response" where
  "res_type D t r =
     r\<lparr>headers := store_set (headers r) (js ''content-type'')
          (case contentType D t of None \<Rightarrow> [] | Some ct \<Rightarrow> ct)\<rparr>"

text \<open>\<open>Response.set\<close>.\<close>

definition res_set :: "deps \<Rightarrow> jstring \<Rightarrow> jstring \<Rightarrow> response \<Rightarrow> response" where
  "res_set D field v r =
     (let lowerCaseField = lower_ascii field
      in if lowerCaseField = js ''content-type'' then res_type D v r
         else r\<lparr>headers := store_set (headers r) lowerCaseField v\<rparr>)"

text \<open>\<open>Response.get\<close>: \<open>this.headers.get(field.toLowerCase()) || ""\<close>.\<close>

definition res_get :: "response \<Rightarrow> jstring \<Rightarrow> jstring" where
  "res_get r field =
     (case store_get (headers r) (lower_ascii field) of None \<Rightarrow> [] | Some v \<Rightarrow> v)"

text \<open>\<open>Response.unset\<close>.\<close>

definition res_unset :: "jstring \<Rightarrow> response \<Rightarrow> response" where
  "res_unset field r = r\<lparr>headers := store_delete (headers r) field\<rparr>"

text \<open>\<open>Response.setStatus\<close>.\<close>

definition res_setStatus :: "nat \<Rightarrow> response \<Rightarrow> response" where
  "res_setStatus code r = r\<lparr>status := code\<rparr>"

subsection \<open>Ending the exchange\<close>

text \<open>
  \<open>req.respond(this)\<close>: the transport is handed the response as it is now. What the
  transport does with it is outside the class, and \<open>send\<close> does not await the promise
  that \<open>end\<close> returns, so a failure of the transmission does not reach the caller of
  \<open>send\<close>.
\<close>

definition snapshot :: "response \<Rightarrow> transmission" where
  "snapshot r = \<lparr>tx_status = status r, tx_headers = headers r, tx_body = body r\<rparr>"

definition respond :: "response \<Rightarrow> response" where
  "respond r = r\<lparr>responded := responded r @ [snapshot r]\<rparr>"

text \<open>Truthiness of a body: the empty string is falsy, every object is truthy.\<close>

fun truthy_body :: "deno_body \<Rightarrow> bool" where
  "truthy_body (BString s) = (s \<noteq> [])"
| "truthy_body (BBytes b) = True"
| "truthy_body (BReader h) = True"

text \<open>
  \<open>Response.end\<close>: \<open>if (body) { this.body = body; }\<close>, then \<open>req.respond(this)\<close>.
  The argument is \<open>None\<close> when the call passes none.
\<close>

definition res_end :: "deno_body option \<Rightarrow> response \<Rightarrow> response" where
  "res_end b r =
     respond (case b of
                None \<Rightarrow> r
              | Some c \<Rightarrow> if truthy_body c then r\<lparr>body := Some c\<rparr> else r)"

subsection \<open>ETag\<close>

text \<open>
  \<open>typeof (chunk as any).length\<close>: a string has a length, a \<open>Uint8Array\<close> has one, a
  \<open>Deno.FileInfo\<close> has none. The source uses the resulting string as a condition.
\<close>

fun typeof_length :: "etag_input \<Rightarrow> jstring" where
  "typeof_length (EString s) = js ''number''"
| "typeof_length (EBytes b) = js ''number''"
| "typeof_length (EFileInfo i) = js ''undefined''"

text \<open>\<open>Response.etag\<close>. A string is truthy when it is not empty.\<close>

definition res_etag :: "deps \<Rightarrow> etag_input \<Rightarrow> response \<Rightarrow> response" where
  "res_etag D chunk r =
     (case etag_fn (app r) of
        None \<Rightarrow> r
      | Some etagFn \<Rightarrow>
          if typeof_length chunk \<noteq> [] then
            (let etag = etagFn chunk
             in if etag \<noteq> [] then res_set D (js ''ETag'') etag r else r)
          else r)"

subsection \<open>Sending\<close>

text \<open>
  The part of \<open>Response.send\<close> that follows the \<open>switch\<close>, for the chunk the
  \<open>switch\<close> has chosen. First the validators: a string gets the \<open>html\<close> content type
  when none is set, and a string or a \<open>Uint8Array\<close> gets an ETag when none is set.
\<close>

definition send_validators :: "deps \<Rightarrow> deno_body \<Rightarrow> response \<Rightarrow> response" where
  "send_validators D chunk r =
     (let r1 = (case chunk of
                  BString s \<Rightarrow>
                    if res_get r (js ''Content-Type'') = [] then res_type D (js ''html'') r else r
                | _ \<Rightarrow> r)
      in if res_get r1 (js ''ETag'') = [] then
           (case chunk of
              BString s \<Rightarrow> res_etag D (EString s) r1
            | BBytes b \<Rightarrow> res_etag D (EBytes b) r1
            | BReader h \<Rightarrow> r1)
         else r1)"

text \<open>
  Then freshness, the statuses without an entity, and the call of \<open>end\<close>, without a
  body for a \<open>HEAD\<close> request.
\<close>

definition send_chunk :: "deps \<Rightarrow> deno_body \<Rightarrow> response \<Rightarrow> response" where
  "send_chunk D chunk r =
     (let r2 = send_validators D chunk r;
          r3 = (if fresh (req r2) (status r2) (headers r2) then r2\<lparr>status := 304\<rparr> else r2);
          empty = (status r3 = 204 \<or> status r3 = 304);
          r4 = (if empty then
                  res_unset (js ''Transfer-Encoding'')
                    (res_unset (js ''Content-Length'') (res_unset (js ''Content-Type'') r3))
                else r3);
          chunk' = (if empty then BString [] else chunk)
      in if req_method (req r4) = js ''HEAD'' then res_end None r4 else res_end (Some chunk') r4)"

text \<open>
  \<open>Response.send\<close> and \<open>Response.json\<close>. The \<open>switch\<close> on \<open>typeof body\<close>: a
  string is the chunk; a boolean or a number goes to \<open>json\<close>; for \<open>null\<close>, whose type
  is \<open>"object"\<close>, the test \<open>body instanceof Uint8Array\<close> is false and the property
  access \<open>body.read\<close> throws a \<open>TypeError\<close>; a \<open>Uint8Array\<close> or a reader is the
  chunk; any other object goes to \<open>json\<close>.
\<close>

function res_send :: "deps \<Rightarrow> js_value \<Rightarrow> response \<Rightarrow> outcome"
  and res_json :: "deps \<Rightarrow> js_value \<Rightarrow> response \<Rightarrow> outcome" where
  "res_send D (VString s) r = (None, send_chunk D (BString s) r)"
| "res_send D (VBoolean b) r = res_json D (VBoolean b) r"
| "res_send D (VNumber n) r = res_json D (VNumber n) r"
| "res_send D VNull r = (Some TypeError, r)"
| "res_send D (VBytes b) r =
     (None, send_chunk D (BBytes b)
        (if res_get r (js ''Content-Type'') = [] then res_type D (js ''bin'') r else r))"
| "res_send D (VReader h) r =
     (None, send_chunk D (BReader h)
        (if res_get r (js ''Content-Type'') = [] then res_type D (js ''bin'') r else r))"
| "res_send D (VObject kvs) r = res_json D (VObject kvs) r"
| "res_send D (VArray vs) r = res_json D (VArray vs) r"
| "res_json D b r =
     res_send D (VString (stringify D b))
       (if res_get r (js ''Content-Type'') = [] then res_type D (js ''application/json'') r
        else r)"
  by pat_completeness auto
termination
  by (relation "measure (\<lambda>x. case x of
         Inl (D, v, r) \<Rightarrow> (case v of VString s \<Rightarrow> 0 | _ \<Rightarrow> 2)
       | Inr (D, v, r) \<Rightarrow> 1)") auto

subsection \<open>JSONP\<close>

text \<open>The callback charset \<open>/[^\[\]\w$.]/g\<close>: what is not in it is removed.\<close>

definition word_char :: "jchar \<Rightarrow> bool" where
  "word_char c = ((0x41 \<le> c \<and> c \<le> 0x5A) \<or> (0x61 \<le> c \<and> c \<le> 0x7A)
                  \<or> (0x30 \<le> c \<and> c \<le> 0x39) \<or> c = 0x5F)"

definition callback_char :: "jchar \<Rightarrow> bool" where
  "callback_char c = (c = 0x5B \<or> c = 0x5D \<or> word_char c \<or> c = 0x24 \<or> c = 0x2E)"

text \<open>
  \<open>.replace(/\u2028/g, "\\u2028").replace(/\u2029/g, "\\u2029")\<close>: each separator
  becomes the six characters of its escape.
\<close>

definition escape_2028 :: "jstring \<Rightarrow> jstring" where
  "escape_2028 s = concat (map (\<lambda>c. if c = 0x2028 then 0x5C # js ''u2028'' else [c]) s)"

definition escape_2029 :: "jstring \<Rightarrow> jstring" where
  "escape_2029 s = concat (map (\<lambda>c. if c = 0x2029 then 0x5C # js ''u2029'' else [c]) s)"

text \<open>The template \<open>`/**/ typeof ${callback} === 'function' && ${callback}(${body});`\<close>.\<close>

definition jsonp_script :: "jstring \<Rightarrow> jstring \<Rightarrow> jstring" where
  "jsonp_script callback b =
     js ''/**/ typeof '' @ callback @ js '' === '' @ [0x27] @ js ''function'' @ [0x27]
       @ js '' && '' @ callback @ js ''('' @ b @ js '');''"

text \<open>
  The callback of \<open>Response.jsonp\<close>: the query parameter named by the setting, of an
  array its first element (none for an empty array). It is \<open>Some cb\<close> when the condition
  \<open>typeof callback === "string" && callback.length !== 0\<close> holds.
\<close>

definition jsonp_callback :: "response \<Rightarrow> jstring option" where
  "jsonp_callback r =
     (let callback0 = query (req r) (jsonp_callback_name (app r));
          callback = (case callback0 of
                        Some (QArray xs) \<Rightarrow> (case xs of [] \<Rightarrow> None | x # _ \<Rightarrow> Some x)
                      | _ \<Rightarrow> callback0)
      in case callback of
           Some (QString cb) \<Rightarrow> if cb \<noteq> [] then Some cb else None
         | _ \<Rightarrow> None)"

text \<open>\<open>Response.jsonp\<close>.\<close>

definition res_jsonp :: "deps \<Rightarrow> js_value \<Rightarrow> response \<Rightarrow> outcome" where
  "res_jsonp D b r =
     (let body0 = stringify D b
      in case jsonp_callback r of
           Some cb \<Rightarrow>
             (let r1 = res_set D (js ''X-Content-Type-Options'') (js ''nosniff'') r;
                  r2 = res_type D (js ''text/javascript'') r1;
                  callback = filter callback_char cb;
                  body1 = escape_2029 (escape_2028 body0)
              in res_send D (VString (jsonp_script callback body1)) r2)
         | None \<Rightarrow>
             if res_get r (js ''Content-Type'') = [] then
               res_send D (VString body0)
                 (res_set D (js ''Content-Type'') (js ''application/json'')
                    (res_set D (js ''X-Content-Type-Options'') (js ''nosniff'') r))
             else res_send D (VString body0) r)"

subsection \<open>Files\<close>

text \<open>
  \<open>Response.sendFile\<close>, from the point where the bytes and the metadata have been
  read: \<open>Last-Modified\<close> when there is a modification time, an ETag from the metadata
  when none is set, the content type of the extension, and \<open>send\<close>.
\<close>

definition sendFile_transfer ::
  "deps \<Rightarrow> jstring \<Rightarrow> bytes \<Rightarrow> file_info \<Rightarrow> response \<Rightarrow> outcome" where
  "sendFile_transfer D p b stats r =
     (let r1 = (case mtime stats of
                  Some t \<Rightarrow> res_set D (js ''Last-Modified'') (toUTCString D t) r
                | None \<Rightarrow> r);
          r2 = (if res_get r1 (js ''ETag'') = [] then res_etag D (EFileInfo stats) r1 else r1);
          r3 = res_type D (extname D p) r2
      in res_send D (VBytes b) r3)"

text \<open>
  \<open>Response.sendFile\<close>. Converting a file URL, reading the file and reading its
  metadata can each fail; the error is thrown to the caller.
\<close>

definition res_sendFile :: "deps \<Rightarrow> jstring \<Rightarrow> response \<Rightarrow> outcome" where
  "res_sendFile D p r =
     (case (if startsWith p (js ''file:'') then fromFileUrl D p else Inr p) of
        Inl e \<Rightarrow> (Some e, r)
      | Inr p' \<Rightarrow>
          (case readFile D p' of
             Inl e \<Rightarrow> (Some e, r)
           | Inr b \<Rightarrow>
               (case stat D p' of
                  Inl e \<Rightarrow> (Some e, r)
                | Inr stats \<Rightarrow> sendFile_transfer D p' b stats r)))"

text \<open>
  \<open>Response.download\<close>. \<open>filename || path\<close> is the path when the file name is absent
  or empty. The \<open>catch\<close> clause removes the header and throws the error again.
\<close>

definition res_download :: "deps \<Rightarrow> jstring \<Rightarrow> jstring option \<Rightarrow> response \<Rightarrow> outcome" where
  "res_download D p filename r =
     (let name = (case filename of None \<Rightarrow> p | Some f \<Rightarrow> if f = [] then p else f);
          r1 = res_set D (js ''Content-Disposition'')
                 (contentDisposition D (js ''attachment'') (basename D name)) r
      in case res_sendFile D p r1 of
           (Some err, r2) \<Rightarrow> (Some err, res_unset (js ''Content-Disposition'') r2)
         | (None, r2) \<Rightarrow> (None, r2))"

subsection \<open>Content negotiation\<close>

text \<open>\<open>next(err)\<close> and \<open>next()\<close>: the continuation is called.\<close>

definition next_call :: "error option \<Rightarrow> response \<Rightarrow> response" where
  "next_call e r = r\<lparr>nexted := nexted r @ [e]\<rparr>"

text \<open>\<open>Response.vary\<close>.\<close>

definition res_vary :: "deps \<Rightarrow> jstring \<Rightarrow> response \<Rightarrow> response" where
  "res_vary D field r = r\<lparr>headers := vary D (headers r) field\<rparr>"

text \<open>
  \<open>Response.format\<close>. The object is its list of entries in key order, with distinct
  keys; a handler acts on the response. \<open>format_keys\<close> is \<open>Object.keys(rest)\<close>, the
  keys other than \<open>default\<close>. \<open>format_key\<close> is the source's \<open>key\<close>, \<open>None\<close> when
  that is falsy (\<open>false\<close>, \<open>undefined\<close> or the empty string). Calling \<open>obj[key]\<close>
  when the object has no such entry throws a \<open>TypeError\<close>.
\<close>

definition format_keys :: "(jstring \<times> 'h) list \<Rightarrow> jstring list" where
  "format_keys obj = filter (\<lambda>k. k \<noteq> js ''default'') (map fst obj)"

definition format_key :: "request \<Rightarrow> jstring list \<Rightarrow> jstring option" where
  "format_key rq keys =
     (if 0 < length keys then
        (case accepts rq keys of
           [] \<Rightarrow> None
         | k # _ \<Rightarrow> if k = [] then None else Some k)
      else None)"

definition res_format ::
  "deps \<Rightarrow> (jstring \<times> (response \<Rightarrow> response)) list \<Rightarrow> response \<Rightarrow> outcome" where
  "res_format D obj r =
     (let fn = map_of obj (js ''default'');
          keys = format_keys obj;
          key = format_key (req r) keys;
          r1 = res_vary D (js ''Accept'') r
      in case key of
           Some k \<Rightarrow>
             (let r2 = res_set D (js ''Content-Type'') (mime_value (normalizeType D k)) r1
              in case map_of obj k of
                   None \<Rightarrow> (Some TypeError, r2)
                 | Some handler \<Rightarrow> (None, handler r2))
         | None \<Rightarrow>
             (case fn of
                Some f \<Rightarrow> (None, f r1)
              | None \<Rightarrow>
                  (None, next_call
                     (Some (NotAcceptable (js ''Not Acceptable'') 406 406
                        (map mime_value (normalizeTypes D keys)))) r1)))"

section \<open>The static file server\<close>

text \<open>
  \<open>collapseLeadingSlashes\<close>. The loop leaves in \<open>i\<close> the number of leading slashes;
  \<open>str.substr(i)\<close> is the rest.
\<close>

fun leading_slashes :: "jstring \<Rightarrow> nat" where
  "leading_slashes [] = 0"
| "leading_slashes (c # cs) = (if c \<noteq> 0x2f then 0 else Suc (leading_slashes cs))"

definition collapseLeadingSlashes :: "jstring \<Rightarrow> jstring" where
  "collapseLeadingSlashes str =
     (let i = leading_slashes str in if 1 < i then js ''/'' @ drop i str else str)"

text \<open>\<open>createHtmlDocument\<close>.\<close>

definition createHtmlDocument :: "jstring \<Rightarrow> jstring \<Rightarrow> jstring" where
  \<open>createHtmlDocument title b =
     js ''<!DOCTYPE html>'' @ [0x0A] @
     js ''<html lang="en">'' @ [0x0A] @
     js ''<head>'' @ [0x0A] @
     js ''<meta charset="utf-8">'' @ [0x0A] @
     js ''<title>'' @ title @ js ''</title>'' @ [0x0A] @
     js ''</head>'' @ [0x0A] @
     js ''<body>'' @ [0x0A] @
     js ''<pre>'' @ b @ js ''</pre>'' @ [0x0A] @
     js ''</body>'' @ [0x0A] @
     js ''</html>'' @ [0x0A]\<close>

text \<open>The function made by \<open>createNotFoundDirectoryListener\<close>.\<close>

definition createNotFoundDirectoryListener :: "response \<Rightarrow> bool \<Rightarrow> outcome" where
  "createNotFoundDirectoryListener res forwardError =
     (if forwardError then (None, next_call (Some (CreatedError 404)) res)
      else (None, next_call None res))"

text \<open>
  The function made by \<open>createRedirectDirectoryListener\<close>. It reads \<open>this.req\<close>, so
  its receiver is an argument of the model: \<open>None\<close> when the function is called without
  one, in which case \<open>this\<close> is \<open>undefined\<close> (module code is strict) and reading
  \<open>this.req\<close> throws a \<open>TypeError\<close>.
\<close>

record receiver =
  this_req :: request

definition createRedirectDirectoryListener ::
  "deps \<Rightarrow> receiver option \<Rightarrow> response \<Rightarrow> request \<Rightarrow> bool \<Rightarrow> jstring \<Rightarrow> outcome" where
  \<open>createRedirectDirectoryListener D this res rq forwardError fullPath =
     (if endsWith fullPath (js ''/'') then
        (if forwardError then (None, next_call (Some (CreatedError 404)) res)
         else (None, next_call None res))
      else
        (case this of
           None \<Rightarrow> (Some TypeError, res)
         | Some t \<Rightarrow>
             (let originalUrl = original D (this_req t);
                  originalUrl1 = originalUrl\<lparr>path := None\<rparr>;
                  originalUrl2 = originalUrl1
                    \<lparr>pathname := collapseLeadingSlashes (pathname originalUrl1 @ js ''/'')\<rparr>;
                  loc = encodeUrl D (url_toString D originalUrl2);
                  doc = createHtmlDocument (js ''Redirecting'')
                          (js ''Redirecting to <a href="'' @ escapeHtml D loc @ js ''">'' @
                           escapeHtml D loc @ js ''</a>'');
                  res1 = res\<lparr>status := 301\<rparr>;
                  res2 = res_set D (js ''Content-Security-Policy'')
                           (js ''default-src '' @ [0x27] @ js ''none'' @ [0x27]) res1;
                  res3 = res_set D (js ''X-Content-Type-Options'') (js ''nosniff'') res2;
                  res4 = res_set D (js ''Location'') loc res3
              in res_send D (VString doc) res4)))\<close>

text \<open>
  The options of \<open>serveStatic\<close>. \<open>fallthrough\<close> and \<open>redirect\<close> are on unless they
  are \<open>false\<close>; \<open>before\<close> is absent, a function acting on the response, or some other
  truthy value.
\<close>

datatype before_option =
    BeforeAbsent
  | BeforeFunction "response \<Rightarrow> jstring \<Rightarrow> file_info \<Rightarrow> response"
  | BeforeOther

record options =
  opt_fallthrough :: "bool option"
  opt_redirect :: "bool option"
  opt_before :: before_option

text \<open>
  The path the handler serves, relative to the mount: the \<open>pathname\<close> of
  \<open>parseUrl(req)\<close>, or the empty string when that is \<open>"/"\<close> and the original URL's
  pathname does not end with a slash.
\<close>

definition mount_path :: "deps \<Rightarrow> request \<Rightarrow> jstring" where
  "mount_path D rq =
     (let originalUrl = original D rq;
          p = pathname (parseUrl D rq)
      in if p = js ''/'' \<and> substr_last (pathname originalUrl) \<noteq> js ''/'' then [] else p)"

text \<open>
  The handler that \<open>serveStatic\<close> returns, for the values its closure holds. The
  directory listener is called as a plain function, without a receiver.
\<close>

definition serveStatic_handler ::
  "deps \<Rightarrow> bool \<Rightarrow> bool \<Rightarrow> before_option \<Rightarrow> jstring \<Rightarrow> request \<Rightarrow> response \<Rightarrow> outcome" where
  "serveStatic_handler D fallthrough redirect before rootPath rq res =
     (if req_method rq \<noteq> js ''GET'' \<and> req_method rq \<noteq> js ''HEAD'' then
        (if fallthrough then (None, next_call None res)
         else (None, res_end None (res_set D (js ''Allow'') (js ''GET, HEAD'')
                 (res\<lparr>status := 405\<rparr>))))
      else
        (let forwardError = \<not> fallthrough;
             p = mount_path D rq;
             fullPath = join D rootPath p
         in case stat D fullPath of
              Inl err \<Rightarrow>
                (if forwardError then (None, next_call (Some err) res)
                 else (None, next_call None res))
            | Inr st \<Rightarrow>
                if isDirectory st then
                  (if redirect then
                     createRedirectDirectoryListener D None res rq forwardError fullPath
                   else createNotFoundDirectoryListener res forwardError)
                else
                  (let res1 = (case before of
                                 BeforeFunction f \<Rightarrow> f res p st
                               | _ \<Rightarrow> res)
                   in case res_sendFile D fullPath res1 of
                        (Some err, res2) \<Rightarrow>
                          (if forwardError then (None, next_call (Some err) res2)
                           else (None, next_call None res2))
                      | (None, res2) \<Rightarrow> (None, res2))))"

text \<open>
  \<open>serveStatic\<close>: the options are read, a \<open>before\<close> that is not a function is
  refused, the root is converted when it is a file URL, and the handler is returned.
\<close>

definition serveStatic ::
  "deps \<Rightarrow> jstring \<Rightarrow> options \<Rightarrow> error + (request \<Rightarrow> response \<Rightarrow> outcome)" where
  "serveStatic D root opts =
     (let fallthrough = (opt_fallthrough opts \<noteq> Some False);
          redirect = (opt_redirect opts \<noteq> Some False);
          before = opt_before opts
      in case before of
           BeforeOther \<Rightarrow> Inl TypeError
         | _ \<Rightarrow>
             (case (if startsWith root (js ''file:'') then fromFileUrl D root else Inr root) of
                Inl e \<Rightarrow> Inl e
              | Inr rootPath \<Rightarrow>
                  Inr (serveStatic_handler D fallthrough redirect before rootPath)))"


section \<open>A concrete exchange\<close>

text \<open>
  An instance of the collaborators, an application and a request, on which the model is
  evaluated. The media types are those the source asks for by name; the serializer is right
  on \<open>null\<close>, the booleans and \<open>42\<close>; the file system holds one directory,
  \<open>/srv/docs\<close>, and one file, \<open>/srv/report.pdf\<close>.
\<close>

definition sample_contentType :: "jstring \<Rightarrow> jstring option" where
  "sample_contentType t =
     (if t = js ''html'' then Some (js ''text/html; charset=utf-8'')
      else if t = js ''application/json'' then Some (js ''application/json; charset=utf-8'')
      else if t = js ''text/javascript'' then Some (js ''text/javascript; charset=utf-8'')
      else if t = js ''text/plain'' then Some (js ''text/plain; charset=utf-8'')
      else if t = js ''bin'' then Some (js ''application/octet-stream'')
      else if t = js ''.pdf'' then Some (js ''application/pdf'')
      else None)"

definition sample_stringify :: "js_value \<Rightarrow> jstring" where
  "sample_stringify v =
     (case v of
        VNull \<Rightarrow> js ''null''
      | VBoolean b \<Rightarrow> if b then js ''true'' else js ''false''
      | VNumber n \<Rightarrow> if n = 42 then js ''42'' else js ''0''
      | VString s \<Rightarrow> [0x22] @ s @ [0x22]
      | _ \<Rightarrow> js ''{}'')"

definition sample_stat :: "jstring \<Rightarrow> error + file_info" where
  "sample_stat p =
     (if p = js ''/srv/docs'' then Inr \<lparr>isDirectory = True, mtime = None, size = 0\<rparr>
      else if p = js ''/srv/report.pdf''
        then Inr \<lparr>isDirectory = False, mtime = Some 0, size = 3\<rparr>
      else Inl (Failure 2))"

definition sample_readFile :: "jstring \<Rightarrow> error + bytes" where
  "sample_readFile p = (if p = js ''/srv/report.pdf'' then Inr [1, 2, 3] else Inl (Failure 2))"

text \<open>
  The store's treatment of values: white space is space, tab, line feed and carriage
  return; a legal value has tabs and the code units from \<open>0x20\<close> to \<open>0xFF\<close> other
  than \<open>0x7F\<close>. The lower-casing of strings that are not ASCII knows the Kelvin sign,
  U+212A, whose lower case is \<open>k\<close>.
\<close>

definition sample_space :: "jchar \<Rightarrow> bool" where
  "sample_space c = (c = 0x20 \<or> c = 0x09 \<or> c = 0x0A \<or> c = 0x0D)"

definition sample_normalize_value :: "jstring \<Rightarrow> jstring" where
  "sample_normalize_value v = rev (dropWhile sample_space (rev (dropWhile sample_space v)))"

definition sample_value_char :: "jchar \<Rightarrow> bool" where
  "sample_value_char c = (c = 0x09 \<or> (0x20 \<le> c \<and> c \<le> 0x7E) \<or> (0x80 \<le> c \<and> c \<le> 0xFF))"

definition sample_deps :: deps where
  "sample_deps =
     \<lparr>contentType = sample_contentType,
      extname = (\<lambda>p. if endsWith p (js ''.pdf'') then js ''.pdf'' else []),
      basename = (\<lambda>p. rev (takeWhile (\<lambda>c. c \<noteq> 0x2f) (rev p))),
      contentDisposition = (\<lambda>t f. t @ js ''; filename='' @ f),
      stringify = sample_stringify,
      fromFileUrl = (\<lambda>u. Inr (drop 7 u)),
      readFile = sample_readFile,
      stat = sample_stat,
      toUTCString = (\<lambda>t. js ''Thu, 01 Jan 1970 00:00:00 GMT''),
      vary = (\<lambda>h f. h(js ''vary'' \<mapsto> f)),
      normalizeType = (\<lambda>k. \<lparr>mime_value = k\<rparr>),
      normalizeTypes = map (\<lambda>k. \<lparr>mime_value = k\<rparr>),
      encodeUrl = (\<lambda>u. u),
      escapeHtml = (\<lambda>u. u),
      join = (\<lambda>a b. a @ b),
      parseUrl = (\<lambda>rq. \<lparr>pathname = url rq, path = Some (url rq)\<rparr>),
      original = (\<lambda>rq. \<lparr>pathname = originalUrl rq, path = Some (originalUrl rq)\<rparr>),
      url_toString = pathname,
      unicode_toLowerCase = map (\<lambda>c. if c = 0x212A then 0x6B else lower_char c),
      normalize_value = sample_normalize_value,
      legal_value = list_all sample_value_char\<rparr>"

definition sample_request :: request where
  "sample_request =
     \<lparr>req_method = js ''GET'', url = js ''/'', originalUrl = js ''/'',
      fresh = (\<lambda>s h. False), query = (\<lambda>k. None), accepts = (\<lambda>ks. [])\<rparr>"

text \<open>A request with the query \<open>?callback=my.fn<1>\<close>.\<close>

definition sample_jsonp_request :: request where
  "sample_jsonp_request =
     sample_request\<lparr>query :=
       (\<lambda>k. if k = js ''callback'' then Some (QString (js ''my.fn<1>'')) else None)\<rparr>"

text \<open>A request that accepts \<open>html\<close>, and two handlers that leave a mark in the body.\<close>

definition sample_html_request :: request where
  "sample_html_request =
     sample_request\<lparr>accepts := (\<lambda>ks. if js ''html'' \<in> set ks then [js ''html''] else [])\<rparr>"

definition sample_handlers :: "(jstring \<times> (response \<Rightarrow> response)) list" where
  "sample_handlers =
     [(js ''json'', \<lambda>r. r\<lparr>body := Some (BString (js ''fn1''))\<rparr>),
      (js ''html'', \<lambda>r. r\<lparr>body := Some (BString (js ''fn2''))\<rparr>)]"


definition sample_app :: app where
  "sample_app = \<lparr>etag_fn = None, jsonp_callback_name = js ''callback''\<rparr>"

text \<open>A response as the class creates it: status 200, no header, no body.\<close>

definition sample_response :: response where
  "sample_response =
     \<lparr>status = 200, headers = Map.empty, body = None, app = sample_app,
      req = sample_request, responded = [], nexted = []\<rparr>"

section \<open>Properties\<close>

subsection \<open>Strings\<close>

lemma unat_of_char16: "unat (of_char c :: 16 word) = of_char c"
proof (rule of_nat_inverse)
  show "(word_of_nat (of_char c) :: 16 word) = of_char c"
    by (simp add: of_nat_of_char)
  show "(of_char c :: nat) < 2 ^ LENGTH(16)"
    by (rule less_trans [OF nat_of_char_less_256]) simp
qed

lemma of_char16_eq: "(of_char c :: 16 word) = of_char d \<longleftrightarrow> c = d"
proof
  assume "(of_char c :: 16 word) = of_char d"
  then have "unat (of_char c :: 16 word) = unat (of_char d :: 16 word)"
    by (rule arg_cong)
  then have "(of_char c :: nat) = of_char d"
    by (simp only: unat_of_char16)
  then show "c = d"
    by (rule of_char_eqI)
next
  assume "c = d"
  then show "(of_char c :: 16 word) = of_char d" by (rule arg_cong)
qed

lemma inj_of_char16: "inj (of_char :: char \<Rightarrow> 16 word)"
  by (rule injI) (simp only: of_char16_eq)

lemma js_eq_iff: "js a = js b \<longleftrightarrow> a = b"
  unfolding js_def by (rule inj_map_eq_map [OF inj_of_char16])

lemma js_Nil_iff: "js a = [] \<longleftrightarrow> a = []"
  by (simp add: js_def)

lemma Nil_js_iff: "[] = js a \<longleftrightarrow> a = []"
  by (auto simp: js_def)

lemma js_simps:
  "length (js s) = length s"
  "take n (js s) = js (take n s)"
  "drop n (js s) = js (drop n s)"
  "js (s @ t) = js s @ js t"
  by (simp_all add: js_def take_map drop_map)

lemma lower_char_idem: "lower_char (lower_char c) = lower_char c"
  unfolding lower_char_def by (cases "0x41 \<le> c \<and> c \<le> 0x5A") (simp_all, unat_arith)

lemma lower_ascii_idem: "lower_ascii (lower_ascii s) = lower_ascii s"
  by (simp add: lower_ascii_def lower_char_idem)

text \<open>The field names the source writes, lower-cased.\<close>

lemma lower_content_type: "lower_ascii (js ''content-type'') = js ''content-type''"
  by (simp add: lower_ascii_def js_def lower_char_def)

lemma lower_Content_Type: "lower_ascii (js ''Content-Type'') = js ''content-type''"
  by (simp add: lower_ascii_def js_def lower_char_def)

lemma lower_Content_Length: "lower_ascii (js ''Content-Length'') = js ''content-length''"
  by (simp add: lower_ascii_def js_def lower_char_def)

lemma lower_Transfer_Encoding:
  "lower_ascii (js ''Transfer-Encoding'') = js ''transfer-encoding''"
  by (simp add: lower_ascii_def js_def lower_char_def)

lemma lower_ETag: "lower_ascii (js ''ETag'') = js ''etag''"
  by (simp add: lower_ascii_def js_def lower_char_def)

lemma lower_Content_Disposition:
  "lower_ascii (js ''Content-Disposition'') = js ''content-disposition''"
  by (simp add: lower_ascii_def js_def lower_char_def)

lemma lower_Last_Modified: "lower_ascii (js ''Last-Modified'') = js ''last-modified''"
  by (simp add: lower_ascii_def js_def lower_char_def)

lemma lower_X_Content_Type_Options:
  "lower_ascii (js ''X-Content-Type-Options'') = js ''x-content-type-options''"
  by (simp add: lower_ascii_def js_def lower_char_def)

lemma lower_Content_Security_Policy:
  "lower_ascii (js ''Content-Security-Policy'') = js ''content-security-policy''"
  by (simp add: lower_ascii_def js_def lower_char_def)

lemma lower_Location: "lower_ascii (js ''Location'') = js ''location''"
  by (simp add: lower_ascii_def js_def lower_char_def)

lemma lower_Allow: "lower_ascii (js ''Allow'') = js ''allow''"
  by (simp add: lower_ascii_def js_def lower_char_def)

lemmas lower_names =
  lower_content_type lower_Content_Type lower_Content_Length lower_Transfer_Encoding
  lower_ETag lower_Content_Disposition lower_Last_Modified lower_X_Content_Type_Options
  lower_Content_Security_Policy lower_Location lower_Allow

text \<open>The concrete exchange, field by field.\<close>

lemma sample_deps_sel:
  "contentType sample_deps = sample_contentType"
  "stringify sample_deps = sample_stringify"
  "readFile sample_deps = sample_readFile"
  "stat sample_deps = sample_stat"
  "fromFileUrl sample_deps = (\<lambda>u. Inr (drop 7 u))"
  "extname sample_deps = (\<lambda>p. if endsWith p (js ''.pdf'') then js ''.pdf'' else [])"
  "basename sample_deps = (\<lambda>p. rev (takeWhile (\<lambda>c. c \<noteq> 0x2f) (rev p)))"
  "contentDisposition sample_deps = (\<lambda>t f. t @ js ''; filename='' @ f)"
  "toUTCString sample_deps = (\<lambda>t. js ''Thu, 01 Jan 1970 00:00:00 GMT'')"
  "vary sample_deps = (\<lambda>h f. h(js ''vary'' \<mapsto> f))"
  "normalizeType sample_deps = (\<lambda>k. \<lparr>mime_value = k\<rparr>)"
  "normalizeTypes sample_deps = map (\<lambda>k. \<lparr>mime_value = k\<rparr>)"
  "encodeUrl sample_deps = (\<lambda>u. u)"
  "escapeHtml sample_deps = (\<lambda>u. u)"
  "join sample_deps = (\<lambda>a b. a @ b)"
  "parseUrl sample_deps = (\<lambda>rq. \<lparr>pathname = url rq, path = Some (url rq)\<rparr>)"
  "original sample_deps =
     (\<lambda>rq. \<lparr>pathname = originalUrl rq, path = Some (originalUrl rq)\<rparr>)"
  "url_toString sample_deps = pathname"
  "unicode_toLowerCase sample_deps = map (\<lambda>c. if c = 0x212A then 0x6B else lower_char c)"
  "normalize_value sample_deps = sample_normalize_value"
  "legal_value sample_deps = list_all sample_value_char"
  by (simp_all add: sample_deps_def)

lemma sample_response_sel:
  "status sample_response = 200"
  "headers sample_response = Map.empty"
  "body sample_response = None"
  "app sample_response = sample_app"
  "req sample_response = sample_request"
  "responded sample_response = []"
  "nexted sample_response = []"
  by (simp_all add: sample_response_def)

lemma sample_request_sel:
  "req_method sample_request = js ''GET''"
  "fresh sample_request = (\<lambda>s h. False)"
  "query sample_request = (\<lambda>k. None)"
  "accepts sample_request = (\<lambda>ks. [])"
  "url sample_request = js ''/''"
  "originalUrl sample_request = js ''/''"
  by (simp_all add: sample_request_def)

lemma sample_app_sel:
  "etag_fn sample_app = None"
  "jsonp_callback_name sample_app = js ''callback''"
  by (simp_all add: sample_app_def)

lemmas sample_sel = sample_deps_sel sample_response_sel sample_request_sel sample_app_sel

subsection \<open>Setting and reading headers\<close>

lemma res_set_content_type:
  "lower_ascii field = js ''content-type'' \<Longrightarrow> res_set D field v r = res_type D v r"
  by (simp add: res_set_def)

lemma res_type_eq:
  "res_type D t r =
     r\<lparr>headers := (headers r)(js ''content-type'' \<mapsto>
          (case contentType D t of None \<Rightarrow> [] | Some ct \<Rightarrow> ct))\<rparr>"
  by (simp add: res_type_def store_set_def lower_content_type)

lemma res_set_other:
  "lower_ascii field \<noteq> js ''content-type'' \<Longrightarrow>
     res_set D field v r = r\<lparr>headers := (headers r)(lower_ascii field \<mapsto> v)\<rparr>"
  by (simp add: res_set_def store_set_def lower_ascii_idem Let_def)

lemma res_get_eq:
  "res_get r field = (case headers r (lower_ascii field) of None \<Rightarrow> [] | Some v \<Rightarrow> v)"
  by (simp add: res_get_def store_get_def lower_ascii_idem)

lemma res_unset_eq:
  "res_unset field r = r\<lparr>headers := (headers r)(lower_ascii field := None)\<rparr>"
  by (simp add: res_unset_def store_delete_def)

text \<open>Legal names are ASCII and stay legal when lower-cased.\<close>

lemma token_char_ascii: "token_char c \<Longrightarrow> c < 0x80"
  unfolding token_char_def by (elim disjE conjE) (simp_all, unat_arith+)

lemma token_char_lower: "token_char c \<Longrightarrow> token_char (lower_char c)"
proof (cases "0x41 \<le> c \<and> c \<le> 0x5A")
  case True
  then have "0x61 \<le> c + 0x20 \<and> c + 0x20 \<le> 0x7A"
    by unat_arith auto
  with True show ?thesis
    by (simp add: lower_char_def token_char_def)
next
  case False
  then have "lower_char c = c"
    by (auto simp: lower_char_def)
  then show "token_char c \<Longrightarrow> ?thesis"
    by simp
qed

lemma legal_name_ascii: "legal_name n \<Longrightarrow> is_ascii n"
  by (auto simp: legal_name_def is_ascii_def list_all_iff token_char_ascii)

lemma legal_name_lower: "legal_name n \<Longrightarrow> legal_name (lower_ascii n)"
  by (auto simp: legal_name_def lower_ascii_def list_all_iff token_char_lower)

lemma toLowerCase_ascii: "is_ascii s \<Longrightarrow> toLowerCase D s = lower_ascii s"
  by (simp add: toLowerCase_def)

lemma legal_content_type: "legal_name (js ''content-type'')"
  by (simp add: legal_name_def token_char_def js_def)

text \<open>
  On a legal name and a legal value without surrounding white space the store's operations
  do not throw and are the lookup, the update and the removal.
\<close>

lemma headers_get_legal: "legal_name n \<Longrightarrow> headers_get h n = Inr (store_get h n)"
  by (simp add: headers_get_def store_get_def)

lemma headers_set_legal:
  "legal_name n \<Longrightarrow> legal_value D v \<Longrightarrow> normalize_value D v = v \<Longrightarrow>
     headers_set D h n v = Inr (store_set h n v)"
  by (simp add: headers_set_def store_set_def)

lemma headers_delete_legal: "legal_name n \<Longrightarrow> headers_delete h n = Inr (store_delete h n)"
  by (simp add: headers_delete_def store_delete_def)

text \<open>
  So \<open>res_type\<close>, \<open>res_set\<close> and \<open>res_get\<close> are \<open>Response.type\<close>,
  \<open>Response.set\<close> and \<open>Response.get\<close> on such arguments.
\<close>

lemma Response_type_legal:
  assumes "legal_value D (case contentType D t of None \<Rightarrow> [] | Some ct \<Rightarrow> ct)"
    and "normalize_value D (case contentType D t of None \<Rightarrow> [] | Some ct \<Rightarrow> ct) =
         (case contentType D t of None \<Rightarrow> [] | Some ct \<Rightarrow> ct)"
  shows "Response_type D t r = (None, res_type D t r)"
  using assms
  by (simp add: Response_type_def res_type_def headers_set_legal legal_content_type)

lemma Response_set_legal:
  assumes "legal_name field" and "lower_ascii field \<noteq> js ''content-type''"
    and "legal_value D v" and "normalize_value D v = v"
  shows "Response_set D field v r = (None, res_set D field v r)"
proof -
  have low: "toLowerCase D field = lower_ascii field"
    using assms(1) by (simp add: toLowerCase_ascii legal_name_ascii)
  show ?thesis
    using assms
    by (simp add: Response_set_def res_set_def Let_def low headers_set_legal legal_name_lower)
qed

lemma Response_get_legal:
  assumes "legal_name field"
  shows "Response_get D r field = Inr (res_get r field)"
proof -
  have low: "toLowerCase D field = lower_ascii field"
    using assms by (simp add: toLowerCase_ascii legal_name_ascii)
  show ?thesis
    using assms
    by (simp add: Response_get_def res_get_def low headers_get_legal legal_name_lower
          split: option.splits)
qed

text \<open>What is read back after \<open>set\<close> has stored a value, under any spelling of the field.\<close>

lemma get_after_set:
  assumes "Response_set D field v r = (None, r')"
    and "toLowerCase D field \<noteq> js ''content-type''"
    and "toLowerCase D field' = toLowerCase D field"
  shows "Response_get D r' field' = Inr (normalize_value D v)"
  using assms
  by (auto simp: Response_set_def Response_get_def Let_def headers_set_def headers_get_def
        split: if_splits)

text \<open>
  C10, as the code has it. \<open>Response.set\<close> lower-cases the field; when the result is
  \<open>content-type\<close> the call is \<open>type(value)\<close>, which hands the store the result of
  \<open>contentType(value)\<close>, the empty string when the lookup fails; otherwise the store is
  handed the lower-cased field and the value. The store throws a \<open>TypeError\<close>, and the
  response stays as it was, when the name is not legal or the value, once the white space
  around it is stripped, is not legal; otherwise the stripped value is stored under the
  lower-cased name. \<open>Response.get\<close> lower-cases the field: a name that is not legal
  makes the store throw a \<open>TypeError\<close>; otherwise the result is the stored value, or the
  empty string when the header is absent. On an ASCII field lower-casing is that of the
  letters \<open>A\<close> to \<open>Z\<close>.
\<close>

theorem set_and_get_through_the_store:
  "(toLowerCase D field = js ''content-type'' \<longrightarrow>
      Response_set D field v r = Response_type D v r)
   \<and> Response_type D v r =
       (if legal_value D
             (normalize_value D (case contentType D v of None \<Rightarrow> [] | Some ct \<Rightarrow> ct))
        then (None, r\<lparr>headers := (headers r)(js ''content-type'' \<mapsto>
                normalize_value D (case contentType D v of None \<Rightarrow> [] | Some ct \<Rightarrow> ct))\<rparr>)
        else (Some TypeError, r))
   \<and> (toLowerCase D field \<noteq> js ''content-type'' \<longrightarrow>
      Response_set D field v r =
        (if legal_name (toLowerCase D field) \<and> legal_value D (normalize_value D v)
         then (None, r\<lparr>headers := (headers r)(lower_ascii (toLowerCase D field) \<mapsto>
                 normalize_value D v)\<rparr>)
         else (Some TypeError, r)))
   \<and> Response_get D r field =
       (if legal_name (toLowerCase D field)
        then Inr (case headers r (lower_ascii (toLowerCase D field)) of
                    None \<Rightarrow> [] | Some x \<Rightarrow> x)
        else Inl TypeError)
   \<and> (is_ascii field \<longrightarrow>
        toLowerCase D field = lower_ascii field
        \<and> lower_ascii (toLowerCase D field) = lower_ascii field)"
  by (simp add: Response_set_def Response_type_def Response_get_def headers_set_def
        headers_get_def Let_def legal_content_type lower_content_type toLowerCase_ascii
        lower_ascii_idem split: option.splits)

lemma sample_lower:
  "toLowerCase sample_deps (js ''Content-Type'') = js ''content-type''"
  "toLowerCase sample_deps (js ''X-Test'') = js ''x-test''"
  "toLowerCase sample_deps (js ''ETag'') = js ''etag''"
  "toLowerCase sample_deps (0x212A # js ''ey'') = js ''key''"
  "toLowerCase sample_deps (js ''bad name'') = js ''bad name''"
  "toLowerCase sample_deps [] = []"
  by (simp_all add: toLowerCase_def is_ascii_def lower_ascii_def lower_char_def js_def
        sample_deps_sel)

lemma sample_names:
  "legal_name (js ''x-test'')" "legal_name (js ''etag'')" "legal_name (js ''key'')"
  "\<not> legal_name (js ''bad name'')" "\<not> legal_name []"
  "lower_ascii (js ''x-test'') = js ''x-test''" "lower_ascii (js ''etag'') = js ''etag''"
  "lower_ascii (js ''key'') = js ''key''"
  "is_ascii (js ''X-Test'')"
  by (simp_all add: legal_name_def token_char_def is_ascii_def lower_ascii_def
        lower_char_def js_def)

lemma sample_values:
  "sample_normalize_value (js '' padded '') = js ''padded''"
  "sample_normalize_value (js ''1'') = js ''1''"
  "sample_normalize_value (js ''text/html; charset=utf-8'') = js ''text/html; charset=utf-8''"
  "sample_normalize_value [] = []"
  "sample_normalize_value (js ''a\<newline>b'') = js ''a\<newline>b''"
  "list_all sample_value_char (js ''padded'')"
  "list_all sample_value_char (js ''1'')"
  "list_all sample_value_char (js ''text/html; charset=utf-8'')"
  "\<not> list_all sample_value_char (js ''a\<newline>b'')"
  by (simp_all add: sample_normalize_value_def sample_space_def sample_value_char_def js_def)

lemma sample_lookup:
  "sample_contentType (js ''html'') = Some (js ''text/html; charset=utf-8'')"
  "sample_contentType (js ''no such type'') = None"
  by (simp_all add: sample_contentType_def js_eq_iff)

theorem set_and_get_through_the_store_witness:
  "toLowerCase sample_deps (js ''Content-Type'') = js ''content-type''
   \<and> Response_set sample_deps (js ''Content-Type'') (js ''html'') sample_response =
       (None, sample_response\<lparr>headers :=
          [js ''content-type'' \<mapsto> js ''text/html; charset=utf-8'']\<rparr>)
   \<and> Response_set sample_deps (js ''Content-Type'') (js ''no such type'') sample_response =
       (None, sample_response\<lparr>headers := [js ''content-type'' \<mapsto> []]\<rparr>)
   \<and> toLowerCase sample_deps (js ''X-Test'') \<noteq> js ''content-type''
   \<and> is_ascii (js ''X-Test'')
   \<and> Response_set sample_deps (js ''X-Test'') (js '' padded '') sample_response =
       (None, sample_response\<lparr>headers := [js ''x-test'' \<mapsto> js ''padded'']\<rparr>)
   \<and> Response_set sample_deps (0x212A # js ''ey'') (js ''1'') sample_response =
       (None, sample_response\<lparr>headers := [js ''key'' \<mapsto> js ''1'']\<rparr>)
   \<and> Response_set sample_deps (js ''X-Test'') (js ''a\<newline>b'') sample_response =
       (Some TypeError, sample_response)
   \<and> Response_set sample_deps (js ''bad name'') (js ''1'') sample_response =
       (Some TypeError, sample_response)
   \<and> Response_get sample_deps sample_response (js ''ETag'') = Inr []
   \<and> Response_get sample_deps
         (sample_response\<lparr>headers := [js ''x-test'' \<mapsto> js ''padded'']\<rparr>) (js ''X-Test'')
       = Inr (js ''padded'')"
proof -
  note at = set_and_get_through_the_store [where D = sample_deps]
  have low: "toLowerCase sample_deps (js ''Content-Type'') = js ''content-type''"
    "toLowerCase sample_deps (js ''X-Test'') \<noteq> js ''content-type''"
    "is_ascii (js ''X-Test'')"
    by (simp_all add: sample_lower sample_names js_eq_iff)
  have ty: "Response_type sample_deps (js ''html'') sample_response =
      (None, sample_response\<lparr>headers :=
         [js ''content-type'' \<mapsto> js ''text/html; charset=utf-8'']\<rparr>)"
    "Response_type sample_deps (js ''no such type'') sample_response =
      (None, sample_response\<lparr>headers := [js ''content-type'' \<mapsto> []]\<rparr>)"
    using at [where field = "js ''Content-Type''" and v = "js ''html''" and r = sample_response,
              THEN conjunct2, THEN conjunct1]
          at [where field = "js ''Content-Type''" and v = "js ''no such type''"
                and r = sample_response, THEN conjunct2, THEN conjunct1]
    by (simp_all add: sample_lookup sample_values sample_sel)
  have ct: "Response_set sample_deps (js ''Content-Type'') v sample_response =
      Response_type sample_deps v sample_response" for v
    using at [where field = "js ''Content-Type''" and v = v and r = sample_response,
              THEN conjunct1]
    by (simp add: low)
  have other: "Response_set sample_deps field v sample_response =
      (if legal_name (toLowerCase sample_deps field) \<and>
          list_all sample_value_char (sample_normalize_value v)
       then (None, sample_response\<lparr>headers :=
               [lower_ascii (toLowerCase sample_deps field) \<mapsto> sample_normalize_value v]\<rparr>)
       else (Some TypeError, sample_response))"
    if "toLowerCase sample_deps field \<noteq> js ''content-type''" for field v
    using that at [where field = field and v = v and r = sample_response,
              THEN conjunct2, THEN conjunct2, THEN conjunct1]
    by (simp add: sample_sel)
  have get: "Response_get sample_deps r field =
      (if legal_name (toLowerCase sample_deps field)
       then Inr (case headers r (lower_ascii (toLowerCase sample_deps field)) of
                   None \<Rightarrow> [] | Some x \<Rightarrow> x)
       else Inl TypeError)" for r field
    using at [where field = field and v = "[]" and r = r,
              THEN conjunct2, THEN conjunct2, THEN conjunct2, THEN conjunct1]
    by simp
  show ?thesis
    by (simp add: low ct ty other get sample_lower sample_names sample_values sample_sel
          js_eq_iff)
qed

text \<open>
  C10, as it is stated, fails for a field that is not a legal header name. On a response
  without any header, \<open>get("bad name")\<close> and \<open>get("")\<close> find the header absent, yet they
  do not return the empty string: the store refuses the name and \<open>get\<close> throws a
  \<open>TypeError\<close>.
\<close>

theorem get_throws_on_illegal_name:
  "headers sample_response = Map.empty
   \<and> Response_get sample_deps sample_response (js ''bad name'') = Inl TypeError
   \<and> Response_get sample_deps sample_response [] = Inl TypeError"
  by (simp add: Response_get_def headers_get_def sample_lower sample_names sample_sel)

subsection \<open>Ending and sending\<close>

text \<open>The methods that set and remove headers touch nothing else.\<close>

lemma res_type_sel [simp]:
  "status (res_type D t r) = status r"
  "body (res_type D t r) = body r"
  "req (res_type D t r) = req r"
  "app (res_type D t r) = app r"
  "responded (res_type D t r) = responded r"
  "nexted (res_type D t r) = nexted r"
  by (simp_all add: res_type_def)

lemma res_set_sel [simp]:
  "status (res_set D f v r) = status r"
  "body (res_set D f v r) = body r"
  "req (res_set D f v r) = req r"
  "app (res_set D f v r) = app r"
  "responded (res_set D f v r) = responded r"
  "nexted (res_set D f v r) = nexted r"
  by (simp_all add: res_set_def Let_def)

lemma res_unset_sel [simp]:
  "status (res_unset f r) = status r"
  "body (res_unset f r) = body r"
  "req (res_unset f r) = req r"
  "app (res_unset f r) = app r"
  "responded (res_unset f r) = responded r"
  "nexted (res_unset f r) = nexted r"
  by (simp_all add: res_unset_def)

lemma res_etag_sel [simp]:
  "status (res_etag D c r) = status r"
  "body (res_etag D c r) = body r"
  "req (res_etag D c r) = req r"
  "app (res_etag D c r) = app r"
  "responded (res_etag D c r) = responded r"
  "nexted (res_etag D c r) = nexted r"
  by (simp_all add: res_etag_def Let_def split: option.splits)

lemma snapshot_respond: "snapshot (respond r) = snapshot r"
  by (simp add: respond_def snapshot_def)

lemma responded_res_end:
  "responded (res_end b r) = responded r @ [snapshot (res_end b r)]"
  by (cases b) (simp_all add: res_end_def respond_def snapshot_def)

lemma send_validators_sel [simp]:
  "status (send_validators D c r) = status r"
  "body (send_validators D c r) = body r"
  "req (send_validators D c r) = req r"
  "app (send_validators D c r) = app r"
  "responded (send_validators D c r) = responded r"
  "nexted (send_validators D c r) = nexted r"
  by (simp_all add: send_validators_def Let_def split: deno_body.splits)

lemma responded_send_chunk:
  "responded (send_chunk D c r) = responded r @ [snapshot (send_chunk D c r)]"
  by (simp add: send_chunk_def Let_def responded_res_end)

lemma res_json_eq:
  "res_json D v r =
     (None, send_chunk D (BString (stringify D v))
        (if res_get r (js ''Content-Type'') = [] then res_type D (js ''application/json'') r
         else r))"
  by simp



text \<open>
  Sending a non-empty string on an exchange without an ETag function, not fresh, not
  \<open>HEAD\<close>, with a status that has an entity: the \<open>html\<close> content type is set when
  there is none, the string becomes the body and the transport is called.
\<close>

lemma send_string_plain:
  assumes "etag_fn (app r) = None"
    and "\<And>h. \<not> fresh (req r) (status r) h"
    and "req_method (req r) \<noteq> js ''HEAD''"
    and "status r \<noteq> 204" and "status r \<noteq> 304"
    and "s \<noteq> []"
  shows "send_chunk D (BString s) r =
    respond
      ((if res_get r (js ''Content-Type'') = [] then res_type D (js ''html'') r else r)
         \<lparr>body := Some (BString s)\<rparr>)"
proof -
  have v: "send_validators D (BString s) r =
      (if res_get r (js ''Content-Type'') = [] then res_type D (js ''html'') r else r)"
    using assms(1) by (simp add: send_validators_def Let_def res_etag_def)
  show ?thesis
    using assms(2-6)
    by (simp add: send_chunk_def Let_def res_end_def flip: v)
qed




subsection \<open>Classification of the body by \<open>send\<close>\<close>

text \<open>
  A boolean, a number, a plain object or an array is sent through \<open>json\<close>: the value is
  serialized, the JSON content type is set when none is, and the text goes on as a string.
\<close>

lemma send_other_is_json:
  "v = VBoolean b \<or> v = VNumber n \<or> v = VObject kvs \<or> v = VArray vs \<Longrightarrow>
     res_send D v r = res_json D v r \<and>
     res_json D v r =
       (None, send_chunk D (BString (stringify D v))
          (if res_get r (js ''Content-Type'') = [] then res_type D (js ''application/json'') r
           else r))"
  by auto

lemma send_42_transmits_json:
  "map tx_body (responded (snd (res_send sample_deps (VNumber 42) sample_response)))
     = [Some (BString (js ''42''))]
   \<and> map (\<lambda>t. tx_headers t (js ''content-type''))
         (responded (snd (res_send sample_deps (VNumber 42) sample_response)))
     = [Some (js ''application/json; charset=utf-8'')]"
  by (simp add: send_chunk_def send_validators_def Let_def res_get_eq res_type_eq
        res_etag_def res_end_def respond_def snapshot_def lower_names js_eq_iff js_Nil_iff
        sample_sel sample_contentType_def sample_stringify_def)

text \<open>
  C2 holds for those values and fails for \<open>null\<close>. The \<open>switch\<close> takes \<open>null\<close> to
  the \<open>"object"\<close> case, where \<open>(body as Deno.Reader).read\<close> is read from \<open>null\<close>:
  \<open>send(null)\<close> throws a \<open>TypeError\<close>, sets no header and transmits nothing, for
  every response and whatever the collaborators are.
\<close>

theorem send_null_throws:
  "res_send D VNull r = (Some TypeError, r)
   \<and> responded (snd (res_send sample_deps VNull sample_response)) = []
   \<and> headers (snd (res_send sample_deps VNull sample_response)) (js ''content-type'') = None"
  by (simp add: sample_sel)

subsection \<open>Statuses without an entity\<close>

text \<open>What \<open>send\<close> does to the status: it becomes 304 when the request is fresh.\<close>

lemma status_send_chunk:
  "status (send_chunk D c r) = 304 \<or> status (send_chunk D c r) = status r"
  by (simp add: send_chunk_def Let_def res_end_def respond_def res_unset_eq)

lemma send_chunk_fresh:
  "fresh (req r) (status r) (headers (send_validators D c r)) \<Longrightarrow>
     status (send_chunk D c r) = 304"
  by (simp add: send_chunk_def Let_def res_end_def respond_def res_unset_eq)

text \<open>
  When the status \<open>send\<close> ends with is 204 or 304, the three headers are gone and the
  chunk given to \<open>end\<close> is the empty string, which \<open>end\<close> does not assign: the body
  transmitted is the body the response already had, none if none was ever assigned.
\<close>

lemma send_chunk_no_entity:
  assumes "status (send_chunk D c r) = 204 \<or> status (send_chunk D c r) = 304"
  shows "headers (send_chunk D c r) (js ''content-type'') = None"
    and "headers (send_chunk D c r) (js ''content-length'') = None"
    and "headers (send_chunk D c r) (js ''transfer-encoding'') = None"
    and "body (send_chunk D c r) = body r"
    and "tx_body (last (responded (send_chunk D c r))) = body r"
  using assms
  by (auto simp: send_chunk_def Let_def res_end_def respond_def snapshot_def res_unset_eq
        lower_names js_eq_iff split: if_splits)

text \<open>
  C3 fails on a response whose \<open>body\<close> has been assigned. With status 204 and the body
  \<open>"stale"\<close> already on the response, \<open>send("x")\<close> removes the content type, empties its
  chunk and calls \<open>end("")\<close>; \<open>end\<close> assigns a body only \<open>if (body)\<close>, the empty
  string is falsy, and the transport is handed a 204 with the body \<open>"stale"\<close>.
\<close>

theorem send_204_transmits_assigned_body:
  "fst (res_send sample_deps (VString (js ''x''))
          (sample_response\<lparr>status := 204, body := Some (BString (js ''stale''))\<rparr>)) = None
   \<and> map tx_status (responded (snd (res_send sample_deps (VString (js ''x''))
          (sample_response\<lparr>status := 204, body := Some (BString (js ''stale''))\<rparr>)))) = [204]
   \<and> map tx_body (responded (snd (res_send sample_deps (VString (js ''x''))
          (sample_response\<lparr>status := 204, body := Some (BString (js ''stale''))\<rparr>))))
       = [Some (BString (js ''stale''))]"
  by (simp add: send_chunk_def send_validators_def Let_def res_get_eq res_type_eq
        res_unset_eq res_etag_def res_end_def respond_def snapshot_def lower_names js_eq_iff
        js_Nil_iff sample_sel sample_contentType_def)

subsection \<open>ETag\<close>


lemma res_set_ETag:
  "res_set D (js ''ETag'') v r = r\<lparr>headers := (headers r)(js ''etag'' \<mapsto> v)\<rparr>"
  using res_set_other [of "js ''ETag''" D v r] by (simp add: lower_ETag js_eq_iff)




subsection \<open>Files and downloads\<close>

text \<open>Which headers the second part of \<open>send\<close> can change.\<close>

lemma headers_send_validators_other:
  "k \<noteq> js ''content-type'' \<Longrightarrow> k \<noteq> js ''etag'' \<Longrightarrow>
     headers (send_validators D c r) k = headers r k"
  by (simp add: send_validators_def Let_def res_type_eq res_etag_def res_set_ETag
        split: deno_body.splits option.splits)

lemma headers_send_chunk_other:
  "k \<noteq> js ''content-type'' \<Longrightarrow> k \<noteq> js ''etag'' \<Longrightarrow> k \<noteq> js ''content-length'' \<Longrightarrow>
   k \<noteq> js ''transfer-encoding'' \<Longrightarrow>
     headers (send_chunk D c r) k = headers r k"
  by (simp add: send_chunk_def Let_def res_end_def respond_def res_unset_eq lower_names
        headers_send_validators_other)

lemma res_set_Last_Modified:
  "res_set D (js ''Last-Modified'') v r = r\<lparr>headers := (headers r)(js ''last-modified'' \<mapsto> v)\<rparr>"
  using res_set_other [of "js ''Last-Modified''" D v r]
  by (simp add: lower_Last_Modified js_eq_iff)

lemma res_set_Content_Disposition:
  "res_set D (js ''Content-Disposition'') v r =
     r\<lparr>headers := (headers r)(js ''content-disposition'' \<mapsto> v)\<rparr>"
  using res_set_other [of "js ''Content-Disposition''" D v r]
  by (simp add: lower_Content_Disposition js_eq_iff)

text \<open>
  Once the file has been read, \<open>sendFile\<close> returns: it has transmitted once and has
  left the \<open>Content-Disposition\<close> header as it was.
\<close>

lemma sendFile_transfer_returns:
  "fst (sendFile_transfer D p b stats r) = None"
  "headers (snd (sendFile_transfer D p b stats r)) (js ''content-disposition'') =
     headers r (js ''content-disposition'')"
  "responded (snd (sendFile_transfer D p b stats r)) =
     responded r @ [snapshot (snd (sendFile_transfer D p b stats r))]"
  by (simp_all add: sendFile_transfer_def Let_def headers_send_chunk_other js_eq_iff
        res_type_eq res_etag_def res_set_ETag res_set_Last_Modified responded_send_chunk
        split: option.splits)

text \<open>\<open>sendFile\<close> throws only before it has touched the response.\<close>

lemma res_sendFile_cases:
  "(\<exists>e. res_sendFile D p r = (Some e, r)) \<or>
   (\<exists>p' b stats. res_sendFile D p r = sendFile_transfer D p' b stats r)"
  by (auto simp: res_sendFile_def split: sum.splits)

lemma res_sendFile_throws:
  "res_sendFile D p r = (Some e, r') \<Longrightarrow> r' = r"
  using res_sendFile_cases [of D p r] sendFile_transfer_returns(1)
  by (metis fst_conv option.distinct(1) snd_conv)

lemma res_sendFile_returns:
  assumes "res_sendFile D p r = (None, r')"
  shows "headers r' (js ''content-disposition'') = headers r (js ''content-disposition'')"
    and "responded r' = responded r @ [snapshot r']"
proof -
  from assms res_sendFile_cases [of D p r]
  obtain p' b stats where "res_sendFile D p r = sendFile_transfer D p' b stats r"
    by auto
  with assms have r': "r' = snd (sendFile_transfer D p' b stats r)"
    by (metis snd_conv)
  show "headers r' (js ''content-disposition'') = headers r (js ''content-disposition'')"
    unfolding r' by (rule sendFile_transfer_returns(2))
  show "responded r' = responded r @ [snapshot r']"
    unfolding r' by (rule sendFile_transfer_returns(3))
qed

text \<open>
  C4. \<open>download\<close> sets \<open>Content-Disposition\<close> to the attachment disposition of the
  base name of \<open>filename || path\<close> and then transfers the file. When the transfer throws,
  \<open>download\<close> throws the same error, nothing has been transmitted and the response has no
  \<open>Content-Disposition\<close> header. When the transfer returns, the header is on the response
  and on what the transport was handed.
\<close>

theorem download_attachment_header:
  "(fst (res_download D p filename r) \<noteq> None \<longrightarrow>
      fst (res_download D p filename r) = fst (res_sendFile D p
        (res_set D (js ''Content-Disposition'')
          (contentDisposition D (js ''attachment'')
            (basename D (case filename of None \<Rightarrow> p | Some f \<Rightarrow> if f = [] then p else f))) r))
      \<and> headers (snd (res_download D p filename r)) (js ''content-disposition'') = None
      \<and> responded (snd (res_download D p filename r)) = responded r)
   \<and> (fst (res_download D p filename r) = None \<longrightarrow>
      headers (snd (res_download D p filename r)) (js ''content-disposition'') =
        Some (contentDisposition D (js ''attachment'')
          (basename D (case filename of None \<Rightarrow> p | Some f \<Rightarrow> if f = [] then p else f)))
      \<and> responded (snd (res_download D p filename r)) =
          responded r @ [snapshot (snd (res_download D p filename r))])"
proof -
  define name where "name = (case filename of None \<Rightarrow> p | Some f \<Rightarrow> if f = [] then p else f)"
  define r1 where "r1 = res_set D (js ''Content-Disposition'')
    (contentDisposition D (js ''attachment'') (basename D name)) r"
  have dl: "res_download D p filename r =
    (case res_sendFile D p r1 of
       (Some err, r2) \<Rightarrow> (Some err, res_unset (js ''Content-Disposition'') r2)
     | (None, r2) \<Rightarrow> (None, r2))"
    by (simp add: res_download_def Let_def name_def r1_def)
  have h1: "headers r1 (js ''content-disposition'') =
    Some (contentDisposition D (js ''attachment'') (basename D name))"
    by (simp add: r1_def res_set_Content_Disposition)
  have resp1: "responded r1 = responded r"
    by (simp add: r1_def)
  obtain e r2 where sf: "res_sendFile D p r1 = (e, r2)"
    by (cases "res_sendFile D p r1")
  show ?thesis
  proof (cases e)
    case None
    with sf have ok: "res_sendFile D p r1 = (None, r2)" by simp
    have "res_download D p filename r = (None, r2)"
      by (simp add: dl ok)
    with res_sendFile_returns [OF ok] h1 resp1 show ?thesis
      by (simp add: name_def)
  next
    case (Some err)
    with sf have bad: "res_sendFile D p r1 = (Some err, r2)" by simp
    then have r2: "r2 = r1" by (rule res_sendFile_throws)
    have "res_download D p filename r = (Some err, res_unset (js ''Content-Disposition'') r1)"
      by (simp add: dl bad r2)
    with bad resp1 show ?thesis
      by (simp add: res_unset_eq lower_Content_Disposition r1_def name_def)
  qed
qed

theorem download_attachment_header_witness:
  "fst (res_download sample_deps (js ''/srv/missing.pdf'') None sample_response) \<noteq> None
   \<and> headers (snd (res_download sample_deps (js ''/srv/missing.pdf'') None sample_response))
        (js ''content-disposition'') = None
   \<and> responded (snd (res_download sample_deps (js ''/srv/missing.pdf'') None sample_response))
        = []
   \<and> fst (res_download sample_deps (js ''/srv/report.pdf'') None sample_response) = None
   \<and> headers (snd (res_download sample_deps (js ''/srv/report.pdf'') None sample_response))
        (js ''content-disposition'') = Some (js ''attachment; filename=report.pdf'')
   \<and> length (responded
         (snd (res_download sample_deps (js ''/srv/report.pdf'') None sample_response))) = 1"
proof -
  have base: "rev (takeWhile (\<lambda>c. c \<noteq> 0x2f) (rev (js ''/srv/report.pdf''))) = js ''report.pdf''"
    by (simp add: js_def)
  have missing: "res_sendFile sample_deps (js ''/srv/missing.pdf'') r = (Some (Failure 2), r)" for r
    by (simp add: res_sendFile_def startsWith_def js_simps js_eq_iff sample_sel
          sample_readFile_def)
  have found: "res_sendFile sample_deps (js ''/srv/report.pdf'') r =
      sendFile_transfer sample_deps (js ''/srv/report.pdf'') [1, 2, 3]
        \<lparr>isDirectory = False, mtime = Some 0, size = 3\<rparr> r" for r
    by (simp add: res_sendFile_def startsWith_def js_simps js_eq_iff sample_sel
          sample_readFile_def sample_stat_def)
  have 1: "fst (res_download sample_deps (js ''/srv/missing.pdf'') None sample_response) \<noteq> None"
    by (simp add: res_download_def Let_def missing)
  have 2: "fst (res_download sample_deps (js ''/srv/report.pdf'') None sample_response) = None"
    by (simp add: res_download_def Let_def found sendFile_transfer_returns(1) split: prod.splits option.splits)
       (metis fst_conv option.distinct(1) sendFile_transfer_returns(1))
  show ?thesis
    using 1 2
      download_attachment_header
        [where D = sample_deps and p = "js ''/srv/missing.pdf''" and filename = None
           and r = sample_response]
      download_attachment_header
        [where D = sample_deps and p = "js ''/srv/report.pdf''" and filename = None
           and r = sample_response]
    by (simp add: sample_sel base js_simps [symmetric])
qed

subsection \<open>JSONP\<close>

lemma res_set_X_Content_Type_Options:
  "res_set D (js ''X-Content-Type-Options'') v r =
     r\<lparr>headers := (headers r)(js ''x-content-type-options'' \<mapsto> v)\<rparr>"
  using res_set_other [of "js ''X-Content-Type-Options''" D v r]
  by (simp add: lower_X_Content_Type_Options js_eq_iff)

lemma res_set_Content_Type:
  "res_set D (js ''Content-Type'') v r = res_type D v r"
  by (simp add: res_set_content_type lower_Content_Type)

text \<open>What the sanitized callback and the escaped payload consist of.\<close>

lemma sanitized_callback: "set (filter callback_char cb) = {c \<in> set cb. callback_char c}"
  by simp

lemma escape_2028_free: "0x2028 \<notin> set (escape_2028 s)"
  by (induction s) (simp_all add: escape_2028_def js_def)

lemma escape_2029_free: "0x2029 \<notin> set (escape_2029 s)"
  by (induction s) (simp_all add: escape_2029_def js_def)

lemma escape_2029_keeps_2028_free: "0x2028 \<notin> set s \<Longrightarrow> 0x2028 \<notin> set (escape_2029 s)"
  by (induction s) (auto simp: escape_2029_def js_def)

lemma escaped_payload_free:
  "0x2028 \<notin> set (escape_2029 (escape_2028 s))" "0x2029 \<notin> set (escape_2029 (escape_2028 s))"
  by (simp_all add: escape_2029_keeps_2028_free escape_2028_free escape_2029_free)

lemma escape_without_separators:
  "0x2028 \<notin> set s \<Longrightarrow> 0x2029 \<notin> set s \<Longrightarrow> escape_2029 (escape_2028 s) = s"
  by (induction s) (auto simp: escape_2028_def escape_2029_def)

text \<open>
  C7, as the code has it. With a callback that is a non-empty string, \<open>jsonp\<close> sets
  \<open>X-Content-Type-Options: nosniff\<close> and the content type of \<open>text/javascript\<close>, and
  sends the script: \<open>/**/ typeof cb === 'function' && cb(payload);\<close>, where \<open>cb\<close> is
  the callback without the characters outside \<open>[]\<close>, letters, digits, \<open>_\<close>, \<open>$\<close> and
  \<open>.\<close>, and \<open>payload\<close> is the serialized body with U+2028 and U+2029 escaped, so that
  neither occurs in it. Without such a callback it sends the serialized body, and sets
  \<open>nosniff\<close> and the JSON content type only when the response has no content type yet;
  when it has one, neither header is touched.
\<close>

theorem jsonp_script_or_json:
  "(jsonp_callback r = Some cb \<longrightarrow>
      res_jsonp D b r =
        res_send D
          (VString (jsonp_script (filter callback_char cb)
             (escape_2029 (escape_2028 (stringify D b)))))
          (res_type D (js ''text/javascript'')
             (res_set D (js ''X-Content-Type-Options'') (js ''nosniff'') r))
      \<and> set (filter callback_char cb) = {c \<in> set cb. callback_char c}
      \<and> 0x2028 \<notin> set (escape_2029 (escape_2028 (stringify D b)))
      \<and> 0x2029 \<notin> set (escape_2029 (escape_2028 (stringify D b)))
      \<and> headers (res_type D (js ''text/javascript'')
             (res_set D (js ''X-Content-Type-Options'') (js ''nosniff'') r)) =
          (headers r)(js ''x-content-type-options'' \<mapsto> js ''nosniff'',
             js ''content-type'' \<mapsto>
               (case contentType D (js ''text/javascript'') of None \<Rightarrow> [] | Some ct \<Rightarrow> ct)))
   \<and> (jsonp_callback r = None \<and> res_get r (js ''Content-Type'') = [] \<longrightarrow>
      res_jsonp D b r =
        res_send D (VString (stringify D b))
          (r\<lparr>headers := (headers r)(js ''x-content-type-options'' \<mapsto> js ''nosniff'',
             js ''content-type'' \<mapsto>
               (case contentType D (js ''application/json'') of None \<Rightarrow> [] | Some ct \<Rightarrow> ct))\<rparr>))
   \<and> (jsonp_callback r = None \<and> res_get r (js ''Content-Type'') \<noteq> [] \<longrightarrow>
      res_jsonp D b r = res_send D (VString (stringify D b)) r)"
  by (simp add: res_jsonp_def Let_def escaped_payload_free res_set_X_Content_Type_Options
        res_set_Content_Type res_type_eq)

lemma jsonp_callback_sample:
  "jsonp_callback (sample_response\<lparr>req := sample_jsonp_request\<rparr>) = Some (js ''my.fn<1>'')"
  "jsonp_callback sample_response = None"
  "jsonp_callback (sample_response\<lparr>headers := [js ''content-type'' \<mapsto> js ''text/plain'']\<rparr>)
     = None"
  by (simp_all add: jsonp_callback_def sample_jsonp_request_def sample_sel js_eq_iff js_Nil_iff)

lemma sanitized_sample: "filter callback_char (js ''my.fn<1>'') = js ''my.fn1''"
  by (simp add: callback_char_def word_char_def js_def)

lemma escape_sample:
  "escape_2029 (escape_2028 (0x22 # 0x2028 # [0x22])) = 0x22 # 0x5C # js ''u2028'' @ [0x22]"
  by (simp add: escape_2028_def escape_2029_def js_def)

lemma jsonp_script_nonempty: "jsonp_script cb payload \<noteq> []"
  by (simp add: jsonp_script_def js_def)

theorem jsonp_script_or_json_witness:
  "jsonp_callback (sample_response\<lparr>req := sample_jsonp_request\<rparr>) = Some (js ''my.fn<1>'')
   \<and> map tx_body (responded (snd (res_jsonp sample_deps (VString [0x2028])
         (sample_response\<lparr>req := sample_jsonp_request\<rparr>))))
       = [Some (BString (jsonp_script (js ''my.fn1'') (0x22 # 0x5C # js ''u2028'' @ [0x22])))]
   \<and> map (\<lambda>t. (tx_headers t (js ''x-content-type-options''), tx_headers t (js ''content-type'')))
         (responded (snd (res_jsonp sample_deps (VString [0x2028])
            (sample_response\<lparr>req := sample_jsonp_request\<rparr>))))
       = [(Some (js ''nosniff''), Some (js ''text/javascript; charset=utf-8''))]
   \<and> jsonp_callback sample_response = None
   \<and> res_get sample_response (js ''Content-Type'') = []
   \<and> map (\<lambda>t. (tx_body t, tx_headers t (js ''x-content-type-options''),
              tx_headers t (js ''content-type'')))
         (responded (snd (res_jsonp sample_deps (VNumber 42) sample_response)))
       = [(Some (BString (js ''42'')), Some (js ''nosniff''),
           Some (js ''application/json; charset=utf-8''))]
   \<and> res_get (sample_response\<lparr>headers := [js ''content-type'' \<mapsto> js ''text/plain'']\<rparr>)
         (js ''Content-Type'') \<noteq> []
   \<and> map tx_body (responded (snd (res_jsonp sample_deps (VNumber 42)
         (sample_response\<lparr>headers := [js ''content-type'' \<mapsto> js ''text/plain'']\<rparr>))))
       = [Some (BString (js ''42''))]"
proof -
  have rq: "req_method sample_jsonp_request = js ''GET''"
    "fresh sample_jsonp_request = (\<lambda>s h. False)"
    by (simp_all add: sample_jsonp_request_def sample_sel)
  have ser: "sample_stringify (VString [0x2028]) = 0x22 # 0x2028 # [0x22]"
    "sample_stringify (VNumber 42) = js ''42''"
    by (simp_all add: sample_stringify_def)
  show ?thesis
    using jsonp_script_or_json
            [where r = "sample_response\<lparr>req := sample_jsonp_request\<rparr>"
               and cb = "js ''my.fn<1>''" and D = sample_deps and b = "VString [0x2028]"]
          jsonp_script_or_json
            [where r = sample_response and D = sample_deps and b = "VNumber 42"]
          jsonp_script_or_json
            [where r = "sample_response\<lparr>headers := [js ''content-type'' \<mapsto> js ''text/plain'']\<rparr>"
               and D = sample_deps and b = "VNumber 42"]
    by (simp add: jsonp_callback_sample sanitized_sample escape_sample ser rq
          send_string_plain jsonp_script_nonempty res_set_X_Content_Type_Options
          res_get_eq res_type_eq respond_def snapshot_def lower_names js_eq_iff js_Nil_iff
          sample_sel sample_contentType_def)
qed

text \<open>
  C7, as it is stated, fails when there is no callback and the response already has a
  content type: \<open>jsonp\<close> then sets neither \<open>X-Content-Type-Options\<close> nor a JSON content
  type, and the body goes out under the content type that was there.
\<close>

theorem jsonp_keeps_existing_content_type:
  "jsonp_callback (sample_response\<lparr>headers := [js ''content-type'' \<mapsto> js ''text/plain'']\<rparr>)
     = None
   \<and> map (\<lambda>t. (tx_body t, tx_headers t (js ''x-content-type-options''),
              tx_headers t (js ''content-type'')))
         (responded (snd (res_jsonp sample_deps (VNumber 42)
            (sample_response\<lparr>headers := [js ''content-type'' \<mapsto> js ''text/plain'']\<rparr>))))
       = [(Some (BString (js ''42'')), None, Some (js ''text/plain''))]"
  by (simp add: jsonp_callback_sample res_jsonp_def send_string_plain
        res_get_eq respond_def snapshot_def lower_names js_eq_iff js_Nil_iff sample_sel
        sample_stringify_def)

subsection \<open>Content negotiation\<close>

text \<open>
  C6. \<open>format\<close> first calls \<open>vary(headers, "Accept")\<close>, so that whatever runs next
  sees the \<open>Vary\<close> header extended by \<open>Accept\<close>. When negotiation gives a key (a
  non-empty first element of \<open>req.accepts(keys)\<close>) that the object has, the content type
  is set from the normalized key and the handler under that key is invoked. When it gives
  none, the \<open>default\<close> handler is invoked if there is one; otherwise the continuation
  is called, once, with the error \<open>Not Acceptable\<close> whose \<open>status\<close> and
  \<open>statusCode\<close> are 406 and whose \<open>types\<close> are the normalized keys on offer, and
  nothing is transmitted.
\<close>

theorem format_negotiates:
  "headers (res_vary D (js ''Accept'') r) = vary D (headers r) (js ''Accept'')
   \<and> (format_key (req r) (format_keys obj) = Some k \<and> map_of obj k = Some handler \<longrightarrow>
        res_format D obj r =
          (None, handler (res_set D (js ''Content-Type'') (mime_value (normalizeType D k))
                   (res_vary D (js ''Accept'') r))))
   \<and> (format_key (req r) (format_keys obj) = None \<and> map_of obj (js ''default'') = Some f \<longrightarrow>
        res_format D obj r = (None, f (res_vary D (js ''Accept'') r)))
   \<and> (format_key (req r) (format_keys obj) = None \<and> map_of obj (js ''default'') = None \<longrightarrow>
        res_format D obj r =
          (None, next_call
             (Some (NotAcceptable (js ''Not Acceptable'') 406 406
                (map mime_value (normalizeTypes D (format_keys obj)))))
             (res_vary D (js ''Accept'') r))
        \<and> nexted (snd (res_format D obj r)) =
            nexted r @ [Some (NotAcceptable (js ''Not Acceptable'') 406 406
                (map mime_value (normalizeTypes D (format_keys obj))))]
        \<and> responded (snd (res_format D obj r)) = responded r
        \<and> headers (snd (res_format D obj r)) = vary D (headers r) (js ''Accept''))"
  by (simp add: res_format_def Let_def res_vary_def next_call_def res_set_content_type
        lower_Content_Type)

lemma format_keys_sample: "format_keys sample_handlers = [js ''json'', js ''html'']"
  by (simp add: format_keys_def sample_handlers_def js_eq_iff)

lemma format_key_sample:
  "format_key sample_html_request [js ''json'', js ''html''] = Some (js ''html'')"
  "format_key sample_request [js ''json'', js ''html''] = None"
  by (simp_all add: format_key_def sample_html_request_def sample_sel js_eq_iff js_Nil_iff)

theorem format_negotiates_witness:
  "format_key (req (sample_response\<lparr>req := sample_html_request\<rparr>)) (format_keys sample_handlers)
     = Some (js ''html'')
   \<and> (\<exists>h. map_of sample_handlers (js ''html'') = Some h)
   \<and> fst (res_format sample_deps sample_handlers (sample_response\<lparr>req := sample_html_request\<rparr>))
       = None
   \<and> body (snd (res_format sample_deps sample_handlers
         (sample_response\<lparr>req := sample_html_request\<rparr>))) = Some (BString (js ''fn2''))
   \<and> headers (snd (res_format sample_deps sample_handlers
         (sample_response\<lparr>req := sample_html_request\<rparr>)))
       = [js ''vary'' \<mapsto> js ''Accept'', js ''content-type'' \<mapsto> js ''text/html; charset=utf-8'']
   \<and> format_key (req sample_response) (format_keys sample_handlers) = None
   \<and> map_of sample_handlers (js ''default'') = None
   \<and> nexted (snd (res_format sample_deps sample_handlers sample_response))
       = [Some (NotAcceptable (js ''Not Acceptable'') 406 406 [js ''json'', js ''html''])]
   \<and> headers (snd (res_format sample_deps sample_handlers sample_response))
       = [js ''vary'' \<mapsto> js ''Accept'']
   \<and> map_of ((js ''default'', \<lambda>r. r\<lparr>body := Some (BString (js ''fallback''))\<rparr>) # sample_handlers)
         (js ''default'') \<noteq> None
   \<and> body (snd (res_format sample_deps
         ((js ''default'', \<lambda>r. r\<lparr>body := Some (BString (js ''fallback''))\<rparr>) # sample_handlers)
         sample_response)) = Some (BString (js ''fallback''))"
proof -
  have keys': "format_keys ((js ''default'', g) # sample_handlers) = [js ''json'', js ''html'']"
    for g :: "response \<Rightarrow> response"
    by (simp add: format_keys_def sample_handlers_def js_eq_iff)
  have look: "map_of sample_handlers (js ''html'') =
      Some (\<lambda>r. r\<lparr>body := Some (BString (js ''fn2''))\<rparr>)"
    "map_of sample_handlers (js ''default'') = None"
    by (simp_all add: sample_handlers_def js_eq_iff)
  show ?thesis
    using format_negotiates
            [where D = sample_deps and r = "sample_response\<lparr>req := sample_html_request\<rparr>"
               and obj = sample_handlers and k = "js ''html''"
               and handler = "\<lambda>r. r\<lparr>body := Some (BString (js ''fn2''))\<rparr>"]
          format_negotiates
            [where D = sample_deps and r = sample_response and obj = sample_handlers]
          format_negotiates
            [where D = sample_deps and r = sample_response
               and obj = "(js ''default'', \<lambda>r. r\<lparr>body := Some (BString (js ''fallback''))\<rparr>)
                           # sample_handlers"
               and f = "\<lambda>r. r\<lparr>body := Some (BString (js ''fallback''))\<rparr>"]
    by (simp add: format_keys_sample format_key_sample keys' look res_vary_def res_type_eq
          next_call_def res_set_Content_Type
          sample_sel sample_contentType_def js_eq_iff)
qed

subsection \<open>The static file server: the path at the mount\<close>

text \<open>
  C8. When the path relative to the mount is exactly \<open>/\<close> and the pathname of the
  original URL does not end with a slash, the handler takes the empty string for the path
  and joins that against the root: for a \<open>GET\<close> or \<open>HEAD\<close> request the file it looks
  up is \<open>join(rootPath, "")\<close>, the mount root itself, and the outcome is decided by what
  is found there.
\<close>

theorem mount_root_is_served_as_empty_path:
  assumes "pathname (parseUrl D rq) = js ''/''"
    and "substr_last (pathname (original D rq)) \<noteq> js ''/''"
    and "req_method rq = js ''GET'' \<or> req_method rq = js ''HEAD''"
  shows "mount_path D rq = []
    \<and> (\<forall>e. stat D (join D rootPath []) = Inl e \<longrightarrow>
          serveStatic_handler D fallthrough redirect before rootPath rq res =
            (None, next_call (if fallthrough then None else Some e) res))
    \<and> (\<forall>st. stat D (join D rootPath []) = Inr st \<and> isDirectory st \<longrightarrow>
          serveStatic_handler D fallthrough redirect before rootPath rq res =
            (if redirect then
               createRedirectDirectoryListener D None res rq (\<not> fallthrough)
                 (join D rootPath [])
             else createNotFoundDirectoryListener res (\<not> fallthrough)))
    \<and> (\<forall>st. stat D (join D rootPath []) = Inr st \<and> \<not> isDirectory st \<and>
            before = BeforeAbsent \<longrightarrow>
          serveStatic_handler D fallthrough redirect before rootPath rq res =
            (case res_sendFile D (join D rootPath []) res of
               (Some err, res2) \<Rightarrow>
                 (None, next_call (if fallthrough then None else Some err) res2)
             | (None, res2) \<Rightarrow> (None, res2)))"
proof -
  have p: "mount_path D rq = []"
    using assms(1,2) by (simp add: mount_path_def Let_def)
  from assms(3) have m: "\<not> (req_method rq \<noteq> js ''GET'' \<and> req_method rq \<noteq> js ''HEAD'')"
    by blast
  show ?thesis
    using m by (auto simp: p serveStatic_handler_def Let_def split: prod.splits option.splits)
qed

lemma sample_docs_request:
  "pathname (parseUrl sample_deps (sample_request\<lparr>originalUrl := js ''/docs''\<rparr>)) = js ''/''"
  "substr_last (js ''/docs'') = js ''s''"
  "req_method (sample_request\<lparr>originalUrl := js ''/docs''\<rparr>) = js ''GET''"
  by (simp_all add: sample_sel substr_last_def js_def)

theorem mount_root_is_served_as_empty_path_witness:
  "pathname (parseUrl sample_deps (sample_request\<lparr>originalUrl := js ''/docs''\<rparr>)) = js ''/''
   \<and> substr_last (pathname (original sample_deps (sample_request\<lparr>originalUrl := js ''/docs''\<rparr>)))
       \<noteq> js ''/''
   \<and> req_method (sample_request\<lparr>originalUrl := js ''/docs''\<rparr>) = js ''GET''
   \<and> mount_path sample_deps (sample_request\<lparr>originalUrl := js ''/docs''\<rparr>) = []
   \<and> stat sample_deps (join sample_deps (js ''/srv/docs'') []) =
       Inr \<lparr>isDirectory = True, mtime = None, size = 0\<rparr>
   \<and> serveStatic_handler sample_deps True False BeforeAbsent (js ''/srv/docs'')
         (sample_request\<lparr>originalUrl := js ''/docs''\<rparr>) sample_response
       = (None, sample_response\<lparr>nexted := [None]\<rparr>)
   \<and> stat sample_deps (join sample_deps (js ''/srv/none'') []) = Inl (Failure 2)
   \<and> serveStatic_handler sample_deps False False BeforeAbsent (js ''/srv/none'')
         (sample_request\<lparr>originalUrl := js ''/docs''\<rparr>) sample_response
       = (None, sample_response\<lparr>nexted := [Some (Failure 2)]\<rparr>)"
  using mount_root_is_served_as_empty_path
          [where D = sample_deps and rq = "sample_request\<lparr>originalUrl := js ''/docs''\<rparr>"
             and rootPath = "js ''/srv/docs''" and fallthrough = True and redirect = False
             and before = BeforeAbsent and res = sample_response]
        mount_root_is_served_as_empty_path
          [where D = sample_deps and rq = "sample_request\<lparr>originalUrl := js ''/docs''\<rparr>"
             and rootPath = "js ''/srv/none''" and fallthrough = False and redirect = False
             and before = BeforeAbsent and res = sample_response]
  by (simp add: sample_docs_request js_eq_iff sample_sel sample_stat_def next_call_def
        createNotFoundDirectoryListener_def)

subsection \<open>The static file server: directories\<close>

text \<open>
  \<open>collapseLeadingSlashes\<close> leaves at most one leading slash and keeps what follows the
  leading slashes.
\<close>

lemma leading_slashes_le: "leading_slashes s \<le> length s"
  by (induction s) simp_all

lemma leading_slashes_drop: "leading_slashes (drop (leading_slashes s) s) = 0"
  by (induction s) simp_all

lemma collapseLeadingSlashes_eq:
  "collapseLeadingSlashes s =
     (if leading_slashes s = 0 then s else 0x2f # drop (leading_slashes s) s)"
proof (cases s)
  case Nil
  then show ?thesis by (simp add: collapseLeadingSlashes_def)
next
  case (Cons c cs)
  then show ?thesis
    by (cases cs) (auto simp: collapseLeadingSlashes_def Let_def js_def)
qed

lemma leading_slashes_collapse:
  "leading_slashes (collapseLeadingSlashes s) = min 1 (leading_slashes s)"
  by (simp add: collapseLeadingSlashes_eq leading_slashes_drop)

lemma collapseLeadingSlashes_rest:
  "drop (leading_slashes (collapseLeadingSlashes s)) (collapseLeadingSlashes s) =
     drop (leading_slashes s) s"
  by (simp add: collapseLeadingSlashes_eq leading_slashes_drop)

text \<open>
  With a receiver, the redirect listener answers a directory path without a trailing slash
  as C9 says: status 301, the three headers, and the HTML document that links to the new
  location, all handed to \<open>send\<close>.
\<close>

lemma redirect_with_receiver:
  fixes D :: deps and t :: receiver
  assumes "\<not> endsWith fullPath (js ''/'')"
  defines "loc \<equiv> encodeUrl D (url_toString D
     ((original D (this_req t))
        \<lparr>path := None,
         pathname := collapseLeadingSlashes (pathname (original D (this_req t)) @ js ''/'')\<rparr>))"
  shows \<open>createRedirectDirectoryListener D (Some t) res rq forwardError fullPath =
    res_send D
      (VString (createHtmlDocument (js ''Redirecting'')
         (js ''Redirecting to <a href="'' @ escapeHtml D loc @ js ''">'' @
          escapeHtml D loc @ js ''</a>'')))
      (res\<lparr>status := 301,
           headers := (headers res)
             (js ''content-security-policy'' \<mapsto> js ''default-src '' @ [0x27] @ js ''none'' @ [0x27],
              js ''x-content-type-options'' \<mapsto> js ''nosniff'',
              js ''location'' \<mapsto> loc)\<rparr>)\<close>
proof -
  have csp: "res_set D (js ''Content-Security-Policy'') v x =
      x\<lparr>headers := (headers x)(js ''content-security-policy'' \<mapsto> v)\<rparr>" for v x
    using res_set_other [of "js ''Content-Security-Policy''" D v x]
    by (simp add: lower_Content_Security_Policy js_eq_iff)
  have loca: "res_set D (js ''Location'') v x =
      x\<lparr>headers := (headers x)(js ''location'' \<mapsto> v)\<rparr>" for v x
    using res_set_other [of "js ''Location''" D v x]
    by (simp add: lower_Location js_eq_iff)
  show ?thesis
    using assms(1)
    by (simp add: createRedirectDirectoryListener_def Let_def loc_def csp loca
          res_set_X_Content_Type_Options)
qed

text \<open>
  The handler calls the listener as a plain function. For a \<open>GET\<close> or \<open>HEAD\<close> request
  that resolves to a directory whose path has no trailing slash, with \<open>redirect\<close>
  enabled, reading \<open>this.req\<close> throws: the handler ends with a \<open>TypeError\<close> and the
  response is as it was.
\<close>

lemma directory_redirect_throws:
  assumes "req_method rq = js ''GET'' \<or> req_method rq = js ''HEAD''"
    and "stat D (join D rootPath (mount_path D rq)) = Inr st"
    and "isDirectory st"
    and "\<not> endsWith (join D rootPath (mount_path D rq)) (js ''/'')"
  shows "serveStatic_handler D fallthrough True before rootPath rq res = (Some TypeError, res)"
proof -
  from assms(1) have m: "\<not> (req_method rq \<noteq> js ''GET'' \<and> req_method rq \<noteq> js ''HEAD'')"
    by blast
  show ?thesis
    using m assms(2-4)
    by (simp add: serveStatic_handler_def Let_def createRedirectDirectoryListener_def)
qed

text \<open>
  C9 fails. The server is made with its default options over the root \<open>/srv\<close>, where
  \<open>/srv/docs\<close> is a directory, and receives \<open>GET /docs\<close>. The redirect listener is
  reached, \<open>this\<close> is \<open>undefined\<close> there, and \<open>original(this.req)\<close> throws a
  \<open>TypeError\<close>: the status is still 200, no header is set and nothing is transmitted,
  where C9 has a 301 with a \<open>Location\<close> of \<open>/docs/\<close>.
\<close>

theorem directory_request_throws_instead_of_redirecting:
  "(case serveStatic sample_deps (js ''/srv'')
           \<lparr>opt_fallthrough = None, opt_redirect = None, opt_before = BeforeAbsent\<rparr> of
      Inl e \<Rightarrow> (Some e, sample_response)
    | Inr handler \<Rightarrow>
        handler (sample_request\<lparr>url := js ''/docs'', originalUrl := js ''/docs''\<rparr>)
          sample_response)
   = (Some TypeError, sample_response)
   \<and> status sample_response = 200
   \<and> headers sample_response = Map.empty
   \<and> responded sample_response = []"
proof -
  have rq: "req_method (sample_request\<lparr>url := js ''/docs'', originalUrl := js ''/docs''\<rparr>)
      = js ''GET''"
    "mount_path sample_deps (sample_request\<lparr>url := js ''/docs'', originalUrl := js ''/docs''\<rparr>)
      = js ''/docs''"
    by (simp_all add: sample_sel mount_path_def js_eq_iff)
  have full: "js ''/srv'' @ js ''/docs'' = js ''/srv/docs''"
    by (simp add: js_def)
  have st: "stat sample_deps (join sample_deps (js ''/srv'')
      (mount_path sample_deps (sample_request\<lparr>url := js ''/docs'', originalUrl := js ''/docs''\<rparr>)))
      = Inr \<lparr>isDirectory = True, mtime = None, size = 0\<rparr>"
    by (simp add: rq full sample_sel sample_stat_def)
  have noslash: "\<not> endsWith (join sample_deps (js ''/srv'')
      (mount_path sample_deps (sample_request\<lparr>url := js ''/docs'', originalUrl := js ''/docs''\<rparr>)))
      (js ''/'')"
    by (simp add: rq full sample_sel endsWith_def js_simps js_eq_iff)
  have made: "serveStatic sample_deps (js ''/srv'')
      \<lparr>opt_fallthrough = None, opt_redirect = None, opt_before = BeforeAbsent\<rparr>
      = Inr (serveStatic_handler sample_deps True True BeforeAbsent (js ''/srv''))"
    by (simp add: serveStatic_def startsWith_def js_simps js_eq_iff)
  show ?thesis
    using directory_redirect_throws [OF _ st _ noslash, where fallthrough = True
        and before = BeforeAbsent and res = sample_response]
    by (simp add: made rq sample_sel)
qed

end
